theory Spec2Isabelle
  imports Main "HOL-Library.Word" "HOL-Library.AList"
begin

section \<open>Values of the secrets API\<close>

text \<open>
  The development embeds \<^verbatim>\<open>src/daemon/SecretsImpl/secretsrequestprocessor.cpp\<close>, the
  request processor of the secrets daemon. A \<^verbatim>\<open>QString\<close> is a \<^typ>\<open>string\<close>, a
  \<^verbatim>\<open>QByteArray\<close> a list of bytes. Error messages and prompt texts are not modelled: no
  branch of the processor reads them.
\<close>

type_synonym QString = string
type_synonym QByteArray = "8 word list"
type_synonym pid_t = nat
type_synonym quint64 = nat

datatype ResultCode = Succeeded | Pending | Failed

datatype ErrorCode =
    NoError | UnknownError
  | InvalidCollectionError | CollectionAlreadyExistsError
  | InvalidSecretError | SecretAlreadyExistsError | InvalidFilterError
  | InvalidExtensionPluginError
  | CollectionIsLockedError | IncorrectAuthenticationCodeError | SecretsDaemonLockedError
  | OperationRequiresUserInteraction | OperationRequiresApplicationUserInteraction
  | InteractionViewUserCanceledError
  | PermissionsError | OperationNotSupportedError | InterleavedRequestError

record Result =
  code :: ResultCode
  errorCode :: ErrorCode

text \<open>
  Modelled from the spec: the class \<^verbatim>\<open>Result\<close> (lib/Secrets/result.h) is not under src/.
  Section 7 of the specification lists the result codes and the error kinds, carried as a
  pair of code and message. \<^verbatim>\<open>Result(Result::Succeeded)\<close> and \<^verbatim>\<open>Result(Result::Pending)\<close>
  carry no error; \<^verbatim>\<open>Result(errorCode, message)\<close> is a failed result with that error.
\<close>

definition ResultOf :: "ResultCode \<Rightarrow> Result" where
  "ResultOf c = \<lparr>code = c, errorCode = NoError\<rparr>"

definition ResultError :: "ErrorCode \<Rightarrow> Result" where
  "ResultError e = \<lparr>code = Failed, errorCode = e\<rparr>"

datatype AccessControlMode = OwnerOnlyMode | SystemAccessControlMode | NoAccessControlMode

datatype UserInteractionMode = PreventInteraction | SystemInteraction | ApplicationInteraction

datatype UnlockSemantic =
  DeviceLockKeepUnlocked | DeviceLockRelock | CustomLockKeepUnlocked | CustomLockTimoutRelock

datatype LockCodeTargetType = BookkeepingDatabase | ExtensionPlugin | Collection | StandaloneSecret

datatype FilterOperator = OperatorOr | OperatorAnd

datatype Operation =
    UnknownOperation | CreateCollection | StoreSecret | ReadSecret | UnlockCollection
  | DeleteSecret | RequestUserData | UnlockDatabase | UnlockPlugin
  | ModifyLockDatabase | ModifyLockPlugin

datatype InputType = UnknownInput | AlphaNumericInput | ConfirmationInput

datatype EchoMode = NormalEcho | PasswordEchoOnEdit

record Identifier =
  id_name :: QString
  id_collectionName :: QString

record Secret =
  sec_identifier :: Identifier
  sec_data :: QByteArray
  sec_filterData :: "(QString \<times> QString) list"

record InteractionParameters =
  ip_authenticationPluginName :: QString
  ip_applicationId :: QString
  ip_collectionName :: QString
  ip_secretName :: QString
  ip_operation :: Operation
  ip_inputType :: InputType
  ip_echoMode :: EchoMode

text \<open>A default-constructed \<^verbatim>\<open>InteractionParameters\<close>.\<close>

definition InteractionParameters0 :: InteractionParameters where
  "InteractionParameters0 =
     \<lparr>ip_authenticationPluginName = [], ip_applicationId = [], ip_collectionName = [],
      ip_secretName = [], ip_operation = UnknownOperation, ip_inputType = UnknownInput,
      ip_echoMode = NormalEcho\<rparr>"

text \<open>
  One row of the bookkeeping database: the out-parameters of \<^verbatim>\<open>collectionMetadata\<close> and
  \<^verbatim>\<open>secretMetadata\<close>, which are also the arguments of the insert and update calls.
\<close>

record Metadata =
  md_applicationId :: QString
  md_usesDeviceLockKey :: bool
  md_storagePluginName :: QString
  md_encryptionPluginName :: QString
  md_authenticationPluginName :: QString
  md_unlockSemantic :: UnlockSemantic
  md_customLockTimeoutMs :: int
  md_accessControlMode :: AccessControlMode

text \<open>The values the callers give their locals before a metadata lookup.\<close>

definition Metadata0 :: Metadata where
  "Metadata0 =
     \<lparr>md_applicationId = [], md_usesDeviceLockKey = False, md_storagePluginName = [],
      md_encryptionPluginName = [], md_authenticationPluginName = [],
      md_unlockSemantic = DeviceLockKeepUnlocked, md_customLockTimeoutMs = 0,
      md_accessControlMode = OwnerOnlyMode\<rparr>"

datatype Variant =
    VString QString | VInt int | VBool bool | VByteArray QByteArray | VResult Result
  | VSecret Secret | VIdentifier Identifier | VInteractionParameters InteractionParameters
  | VUnlockSemantic UnlockSemantic | VAccessControlMode AccessControlMode
  | VUserInteractionMode UserInteractionMode | VFilterData "(QString \<times> QString) list"
  | VFilterOperator FilterOperator | VLockCodeTargetType LockCodeTargetType
  | VIdentifiers "Identifier list"

datatype RequestType =
    CreateCustomLockCollectionRequest | SetCollectionUserInputSecretRequest
  | SetCollectionSecretRequest | SetStandaloneDeviceLockUserInputSecretRequest
  | SetStandaloneCustomLockUserInputSecretRequest | SetStandaloneCustomLockSecretRequest
  | GetCollectionSecretRequest | GetStandaloneSecretRequest | FindCollectionSecretsRequest
  | DeleteCollectionSecretRequest | UserInputRequest | ModifyLockCodeRequest
  | ProvideLockCodeRequest

record PendingRequest =
  pr_callerPid :: pid_t
  pr_requestId :: quint64
  pr_requestType :: RequestType
  pr_parameters :: "Variant list"

record QTimer =
  timer_id :: nat
  timer_interval :: int
  timer_singleShot :: bool

section \<open>Collaborators of the request processor\<close>

text \<open>
  The processor orchestrates the bookkeeping database, the plugins, the authentication
  plugins and the request queue. None of them is under src/: each call the processor makes
  is recorded, in order, in the \<open>effects\<close> of the state, and what the collaborator answers
  is read from the environment \<open>Env\<close>.
\<close>

datatype BookkeepingCall =
    Bk_collectionNames
  | Bk_collectionAlreadyExists QString
  | Bk_collectionMetadata QString
  | Bk_insertCollection QString Metadata
  | Bk_deleteCollection QString
  | Bk_cleanupDeleteCollection QString Result
  | Bk_secretAlreadyExists QString QString
  | Bk_secretMetadata QString QString
  | Bk_hashedSecretNames QString
  | Bk_insertSecret QString QString Metadata
  | Bk_updateSecret QString QString Metadata
  | Bk_deleteSecret QString QString
  | Bk_cleanupDeleteSecret QString QString Result
  | Bk_isInitialised
  | Bk_isLocked
  | Bk_unlock QByteArray
  | Bk_lock
  | Bk_reencrypt QByteArray QByteArray

text \<open>
  Jobs run on the secrets thread pool, named after the wrapper functions the processor
  passes to \<^verbatim>\<open>QtConcurrent::run\<close>; plugins are given by name.
\<close>

datatype PluginJob =
    EncryptedStorage_createCollection QString QString QByteArray
  | Storage_createCollection QString QString
  | EncryptedStorage_removeCollection QString QString
  | Storage_removeCollection QString QString
  | EncryptedStorage_isCollectionLocked QString QString
  | EncryptedStorage_unlockCollectionAndStoreSecret QString Secret QString QByteArray
  | Storage_encryptAndStoreSecret QString QString Secret QString QByteArray
  | EncryptedStorage_setSecret QString QString QString Secret QByteArray
  | EncryptedStorage_unlockCollectionAndReadSecret QString Identifier QString QByteArray
  | Storage_getAndDecryptSecret QString QString Identifier QString QByteArray
  | EncryptedStorage_accessSecret QString QString QString QByteArray
  | EncryptedStorage_unlockAndFindSecrets QString QString "(QString \<times> QString) list"
      FilterOperator QByteArray
  | Storage_findAndDecryptSecretNames QString QString QString "(QString \<times> QString) list"
      FilterOperator QByteArray
  | EncryptedStorage_unlockCollectionAndRemoveSecret QString Identifier QString QByteArray
  | Storage_removeSecret QString QString QString
  | EncryptedStorage_unlockAndRemoveSecret QString QString QString bool QByteArray
  | EncryptedStorage_unlockCollectionAndReencrypt QString QString QByteArray QByteArray bool
  | Storage_reencryptSecrets QString QString "QString list" QByteArray QByteArray QString
  | modifyLockSpecificPlugin QString QByteArray QByteArray
  | modifyMasterLockPlugins QByteArray QByteArray
  | lockSpecificPlugin QString
  | masterLockPlugins

datatype QueueCall =
    Q_testLockCode QByteArray
  | Q_initialise QByteArray
  | Q_setNoLockCode bool
  | Q_setLockCodeCryptoPlugin QString QByteArray QByteArray
  | Q_lockCryptoPlugin QString

text \<open>
  A job whose \<^verbatim>\<open>QFutureWatcher\<close> is connected to a lambda is recorded with the variables
  the lambda captures: they say which slot of this theory (\<open>..._finished\<close>) runs, and on
  which values, when the job is done.
\<close>

datatype Continuation =
    K_createDeviceLockCollection quint64 QString QString QString AccessControlMode
  | K_deleteCollection pid_t quint64 QString AccessControlMode
  | K_setCollectionSecretWithEncryptionKey pid_t quint64 Secret bool QString
  | K_writeStandaloneDeviceLockSecret pid_t quint64 QString QString QString QString bool
  | K_getCollectionSecretWithEncryptionKey quint64
  | K_getStandaloneSecret_accessSecret quint64 QString
  | K_getStandaloneSecret_getAndDecryptSecret quint64
  | K_findCollectionSecretsWithEncryptionKey quint64
  | K_deleteCollectionSecretWithEncryptionKey quint64 Identifier QString AccessControlMode
  | K_deleteStandaloneSecret quint64 QString QString QString QString

text \<open>
  The two caches of unlock keys, \<^verbatim>\<open>m_collectionEncryptionKeys\<close> and
  \<^verbatim>\<open>m_standaloneSecretEncryptionKeys\<close>. A call of \<^verbatim>\<open>QMap::remove\<close> on one of them is
  recorded among the calls to the collaborators (\<open>KeyCacheRemove\<close>), so that the record tells
  whether a key left the cache before or after a call to the bookkeeping database.
\<close>

datatype KeyCache = CollectionEncryptionKeys | StandaloneSecretEncryptionKeys

datatype Effect =
    Bookkeeping BookkeepingCall
  | ThreadPool PluginJob
  | Watch PluginJob Continuation
  | BeginUserInputInteraction QString pid_t quint64 InteractionParameters QString
  | AuthenticationSetLockCode QString QByteArray QByteArray
  | AuthenticationLock QString
  | TimerStart QTimer
  | KeyCacheRemove KeyCache QString
  | RequestQueue QueueCall
  | RequestFinished quint64 "Variant list"

record ApplicationPermissions =
  applicationIsPlatformApplication :: "pid_t \<Rightarrow> bool"
  platformApplicationId :: QString
  applicationId :: "pid_t \<Rightarrow> QString"

record BookkeepingDatabase =
  bkdb_collectionNames :: "Result \<times> QString list"
  bkdb_collectionAlreadyExists :: "QString \<Rightarrow> Result \<times> bool"
  bkdb_collectionMetadata :: "QString \<Rightarrow> Result \<times> Metadata option"
  bkdb_insertCollection :: "QString \<Rightarrow> Metadata \<Rightarrow> Result"
  bkdb_deleteCollection :: "QString \<Rightarrow> Result"
  bkdb_cleanupDeleteCollection :: "QString \<Rightarrow> Result \<Rightarrow> Result"
  bkdb_secretAlreadyExists :: "QString \<Rightarrow> QString \<Rightarrow> Result \<times> bool"
  bkdb_secretMetadata :: "QString \<Rightarrow> QString \<Rightarrow> Result \<times> Metadata option"
  bkdb_hashedSecretNames :: "QString \<Rightarrow> Result \<times> QString list"
  bkdb_insertSecret :: "QString \<Rightarrow> QString \<Rightarrow> Metadata \<Rightarrow> Result"
  bkdb_updateSecret :: "QString \<Rightarrow> QString \<Rightarrow> Metadata \<Rightarrow> Result"
  bkdb_deleteSecret :: "QString \<Rightarrow> QString \<Rightarrow> Result"
  bkdb_cleanupDeleteSecret :: "QString \<Rightarrow> QString \<Rightarrow> Result \<Rightarrow> Result"
  bkdb_isInitialised :: bool
  bkdb_isLocked :: "Result \<times> bool"
  bkdb_lock :: Result
  bkdb_unlock :: "QByteArray \<Rightarrow> Result"
  bkdb_reencrypt :: "QByteArray \<Rightarrow> QByteArray \<Rightarrow> Result"

text \<open>
  The plugin maps of the processor are read only for membership and to hand the plugin to
  a job, so each is the set of its keys. \<open>authenticationTypes_ApplicationSpecific\<close> is the
  test \<^verbatim>\<open>authenticationTypes() & ApplicationSpecificAuthentication\<close>.
\<close>

record Plugins =
  m_storagePlugins :: "QString set"
  m_encryptionPlugins :: "QString set"
  m_encryptedStoragePlugins :: "QString set"
  m_authenticationPlugins :: "QString set"
  authenticationTypes_ApplicationSpecific :: "QString \<Rightarrow> bool"
  beginUserInputInteraction ::
    "QString \<Rightarrow> pid_t \<Rightarrow> quint64 \<Rightarrow> InteractionParameters \<Rightarrow> QString \<Rightarrow> Result"
  supportsLocking :: "QString \<Rightarrow> bool"
  auth_setLockCode :: "QString \<Rightarrow> QByteArray \<Rightarrow> QByteArray \<Rightarrow> bool"
  auth_lock :: "QString \<Rightarrow> bool"
  isCollectionLocked :: "QString \<Rightarrow> QString \<Rightarrow> Result \<times> bool"
  run_modifyLockSpecificPlugin :: "QString \<Rightarrow> QByteArray \<Rightarrow> QByteArray \<Rightarrow> bool \<times> Result"
  run_lockSpecificPlugin :: "QString \<Rightarrow> bool \<times> Result"

text \<open>
  \<open>generateHashedSecretName\<close> (Daemon::Util), \<open>isValid\<close> of the interaction parameters,
  the default authentication plugin name and the key derivation of the request queue are
  declared outside src/ and are parameters of the model.
\<close>

record Env =
  m_bkdb :: BookkeepingDatabase
  m_appPermissions :: ApplicationPermissions
  plugins :: Plugins
  m_autotestMode :: bool
  DefaultAuthenticationPluginName :: QString
  generateHashedSecretName :: "QString \<Rightarrow> QString \<Rightarrow> QString"
  isValid :: "InteractionParameters \<Rightarrow> bool"
  deriveKeyData :: "QByteArray \<Rightarrow> (QByteArray \<times> QByteArray) option"
  setLockCodeCryptoPlugin :: "QString \<Rightarrow> QByteArray \<Rightarrow> QByteArray \<Rightarrow> Result"
  lockCryptoPlugin :: "QString \<Rightarrow> Result"

section \<open>State of the request processor\<close>

text \<open>
  The members of the processor, the keys held by the request queue, and the calls made so
  far. The key caches are \<^verbatim>\<open>QMap\<close>s read by key; the timer maps are also searched by value
  (\<^verbatim>\<open>timeoutRelockSecret\<close>) and are association lists. Every timer is a fresh object:
  \<open>timersCreated\<close> numbers them.
\<close>

record State =
  busyCollections :: "QString set"
  m_collectionEncryptionKeys :: "QString \<rightharpoonup> QByteArray"
  m_standaloneSecretEncryptionKeys :: "QString \<rightharpoonup> QByteArray"
  m_collectionLockTimers :: "(QString \<times> QTimer) list"
  m_standaloneSecretLockTimers :: "(QString \<times> QTimer) list"
  m_pendingRequests :: "quint64 \<rightharpoonup> PendingRequest"
  timersCreated :: nat
  bkdbLockKey :: QByteArray
  deviceLockKey :: QByteArray
  noLockCode :: bool
  effects :: "Effect list"

definition emit :: "Effect \<Rightarrow> State \<Rightarrow> State" where
  "emit e s = s\<lparr>effects := effects s @ [e]\<rparr>"

text \<open>What a call has added to the record of calls.\<close>

definition emitted :: "State \<Rightarrow> State \<Rightarrow> Effect list" where
  "emitted s s' = drop (length (effects s)) (effects s')"

text \<open>
  \<^verbatim>\<open>m_collectionEncryptionKeys.remove(key)\<close> and
  \<^verbatim>\<open>m_standaloneSecretEncryptionKeys.remove(key)\<close>: the entry leaves the cache, and the call
  is recorded.
\<close>

definition removeCollectionEncryptionKey :: "QString \<Rightarrow> State \<Rightarrow> State" where
  "removeCollectionEncryptionKey key s =
     emit (KeyCacheRemove CollectionEncryptionKeys key)
       (s\<lparr>m_collectionEncryptionKeys := (m_collectionEncryptionKeys s)(key := None)\<rparr>)"

definition removeStandaloneSecretEncryptionKey :: "QString \<Rightarrow> State \<Rightarrow> State" where
  "removeStandaloneSecretEncryptionKey key s =
     emit (KeyCacheRemove StandaloneSecretEncryptionKeys key)
       (s\<lparr>m_standaloneSecretEncryptionKeys :=
            (m_standaloneSecretEncryptionKeys s)(key := None)\<rparr>)"

section \<open>Helpers\<close>

text \<open>
  \<^verbatim>\<open>QString::compare(other, Qt::CaseInsensitive) == 0\<close>. Qt compares the two strings code
  unit by code unit after case folding each (\<^verbatim>\<open>foldCase\<close> in qstring.cpp, the simple
  case folding of Unicode). A character of a \<open>QString\<close> of the model is a code unit below
  U+0100, and \<open>foldCase\<close> is the folding of these: the capital letters A to Z, U+00C0 to
  U+00D6 and U+00D8 to U+00DE fold to the small letter 32 places higher, the micro sign
  U+00B5 folds to the Greek small letter mu U+03BC, and every other code unit, the sharp s
  U+00DF and the multiplication sign U+00D7 among them, folds to itself.
\<close>

definition foldCase :: "char \<Rightarrow> nat" where
  "foldCase c =
     (let ch = of_char c :: nat
      in if (65 \<le> ch \<and> ch \<le> 90) \<or> (192 \<le> ch \<and> ch \<le> 214) \<or> (216 \<le> ch \<and> ch \<le> 222)
         then ch + 32
         else if ch = 181 then 956
         else ch)"

definition compareCaseInsensitive :: "QString \<Rightarrow> QString \<Rightarrow> bool" where
  "compareCaseInsensitive a b = (map foldCase a = map foldCase b)"

text \<open>
  The caller's application id, as every operation computes it from \<^verbatim>\<open>m_appPermissions\<close>.
\<close>

definition callerApplicationIdOf :: "Env \<Rightarrow> pid_t \<Rightarrow> QString" where
  "callerApplicationIdOf env callerPid =
     (if applicationIsPlatformApplication (m_appPermissions env) callerPid
      then platformApplicationId (m_appPermissions env)
      else applicationId (m_appPermissions env) callerPid)"

text \<open>
  The default authentication plugin: \<^verbatim>\<open>SecretManager::DefaultAuthenticationPluginName\<close>,
  with \<^verbatim>\<open>.test\<close> appended in autotest mode.
\<close>

definition defaultAuthenticationPlugin :: "Env \<Rightarrow> QString" where
  "defaultAuthenticationPlugin env =
     (if m_autotestMode env then DefaultAuthenticationPluginName env @ ''.test''
      else DefaultAuthenticationPluginName env)"

text \<open>
  The plugin that asks for user input: the one named by the interaction parameters, or the
  default one when they name none.
\<close>

definition userInputPluginOf :: "Env \<Rightarrow> InteractionParameters \<Rightarrow> QString" where
  "userInputPluginOf env uiParams =
     (if ip_authenticationPluginName uiParams = [] then defaultAuthenticationPlugin env
      else ip_authenticationPluginName uiParams)"

definition insertPendingRequest ::
  "quint64 \<Rightarrow> pid_t \<Rightarrow> RequestType \<Rightarrow> Variant list \<Rightarrow> State \<Rightarrow> State" where
  "insertPendingRequest requestId callerPid requestType parameters s =
     s\<lparr>m_pendingRequests := (m_pendingRequests s)(requestId \<mapsto>
          \<lparr>pr_callerPid = callerPid, pr_requestId = requestId,
           pr_requestType = requestType, pr_parameters = parameters\<rparr>)\<rparr>"

text \<open>
  A function that may dereference a plugin pointer that \<^verbatim>\<open>QMap::operator[]\<close> default-
  constructed (a null pointer) either returns its \<^verbatim>\<open>Result\<close> or crashes.
\<close>

datatype Outcome = Return Result | NullPointerDereference

subsection \<open>The interleave guard\<close>

text \<open>
  Modelled from the spec: \<^verbatim>\<open>interleavedRequestsAllowed\<close>, \<^verbatim>\<open>preventInterleavedRequests\<close>,
  \<^verbatim>\<open>allowInterleavedRequests\<close> and \<^verbatim>\<open>interleavedRequestError\<close> are members defined in
  secretsrequestprocessor_p.h, which is not under src/. Section 4.1: the guard is a set of
  busy collection names; a busy target fails with \<open>InterleavedRequestError\<close>; otherwise the
  name is inserted for the duration of the operation and removed in the terminal paths.
\<close>

definition interleavedRequestsAllowed :: "QString \<Rightarrow> State \<Rightarrow> bool" where
  "interleavedRequestsAllowed collectionName s = (collectionName \<notin> busyCollections s)"

definition preventInterleavedRequests :: "QString \<Rightarrow> State \<Rightarrow> State" where
  "preventInterleavedRequests collectionName s =
     s\<lparr>busyCollections := insert collectionName (busyCollections s)\<rparr>"

definition allowInterleavedRequests :: "QString \<Rightarrow> State \<Rightarrow> State" where
  "allowInterleavedRequests collectionName s =
     s\<lparr>busyCollections := busyCollections s - {collectionName}\<rparr>"

definition interleavedRequestError :: Result where
  "interleavedRequestError = ResultError InterleavedRequestError"

section \<open>Collections\<close>

subsection \<open>createDeviceLockCollection\<close>

definition createDeviceLockCollection ::
  "Env \<Rightarrow> pid_t \<Rightarrow> quint64 \<Rightarrow> QString \<Rightarrow> QString \<Rightarrow> QString \<Rightarrow> UnlockSemantic \<Rightarrow>
   AccessControlMode \<Rightarrow> State \<Rightarrow> Result \<times> State" where
  "createDeviceLockCollection env callerPid requestId collectionName storagePluginName
     encryptionPluginName unlockSemantic accessControlMode s =
   (if compareCaseInsensitive collectionName ''standalone''
    then (ResultError InvalidCollectionError, s)
    else if storagePluginName = encryptionPluginName
            \<and> storagePluginName \<notin> m_encryptedStoragePlugins (plugins env)
    then (ResultError InvalidExtensionPluginError, s)
    else if storagePluginName \<noteq> encryptionPluginName
            \<and> storagePluginName \<notin> m_storagePlugins (plugins env)
    then (ResultError InvalidExtensionPluginError, s)
    else if storagePluginName \<noteq> encryptionPluginName
            \<and> encryptionPluginName \<notin> m_encryptionPlugins (plugins env)
    then (ResultError InvalidExtensionPluginError, s)
    else
      let callerApplicationId = callerApplicationIdOf env callerPid;
          s1 = emit (Bookkeeping (Bk_collectionAlreadyExists collectionName)) s;
          existsResult = fst (bkdb_collectionAlreadyExists (m_bkdb env) collectionName);
          exists = snd (bkdb_collectionAlreadyExists (m_bkdb env) collectionName)
      in if code existsResult \<noteq> Succeeded then (existsResult, s1)
         else if exists then (ResultError CollectionAlreadyExistsError, s1)
         else if \<not> interleavedRequestsAllowed collectionName s1
         then (interleavedRequestError, s1)
         else
           let s2 = preventInterleavedRequests collectionName s1;
               row = \<lparr>md_applicationId = callerApplicationId,
                      md_usesDeviceLockKey = True,
                      md_storagePluginName = storagePluginName,
                      md_encryptionPluginName = encryptionPluginName,
                      md_authenticationPluginName = defaultAuthenticationPlugin env,
                      md_unlockSemantic = unlockSemantic,
                      md_customLockTimeoutMs = 0,
                      md_accessControlMode = accessControlMode\<rparr>;
               s3 = emit (Bookkeeping (Bk_insertCollection collectionName row)) s2;
               insertResult = bkdb_insertCollection (m_bkdb env) collectionName row
           in if code insertResult \<noteq> Succeeded then (insertResult, s3)
              else
                (ResultOf Pending,
                 emit (Watch
                   (if storagePluginName = encryptionPluginName
                    then EncryptedStorage_createCollection storagePluginName collectionName
                           (deviceLockKey s3)
                    else Storage_createCollection storagePluginName collectionName)
                   (K_createDeviceLockCollection requestId collectionName storagePluginName
                      encryptionPluginName accessControlMode)) s3))"


subsection \<open>createCustomLockCollection\<close>

definition createCustomLockCollection ::
  "Env \<Rightarrow> pid_t \<Rightarrow> quint64 \<Rightarrow> QString \<Rightarrow> QString \<Rightarrow> QString \<Rightarrow> QString \<Rightarrow>
   UnlockSemantic \<Rightarrow> int \<Rightarrow> AccessControlMode \<Rightarrow> UserInteractionMode \<Rightarrow> QString \<Rightarrow>
   State \<Rightarrow> Result \<times> State" where
  "createCustomLockCollection env callerPid requestId collectionName storagePluginName
     encryptionPluginName authenticationPluginName unlockSemantic customLockTimeoutMs
     accessControlMode userInteractionMode interactionServiceAddress s =
   (if compareCaseInsensitive collectionName ''standalone''
    then (ResultError InvalidCollectionError, s)
    else if storagePluginName = encryptionPluginName
            \<and> storagePluginName \<notin> m_encryptedStoragePlugins (plugins env)
    then (ResultError InvalidExtensionPluginError, s)
    else if storagePluginName \<noteq> encryptionPluginName
            \<and> storagePluginName \<notin> m_storagePlugins (plugins env)
    then (ResultError InvalidExtensionPluginError, s)
    else if storagePluginName \<noteq> encryptionPluginName
            \<and> encryptionPluginName \<notin> m_encryptionPlugins (plugins env)
    then (ResultError InvalidExtensionPluginError, s)
    else if authenticationPluginName \<notin> m_authenticationPlugins (plugins env)
    then (ResultError InvalidExtensionPluginError, s)
    else if authenticationTypes_ApplicationSpecific (plugins env) authenticationPluginName
            \<and> (userInteractionMode \<noteq> ApplicationInteraction \<or> interactionServiceAddress = [])
    then (ResultError OperationRequiresApplicationUserInteraction, s)
    else if userInteractionMode = PreventInteraction
    then (ResultError OperationRequiresUserInteraction, s)
    else
      let callerApplicationId = callerApplicationIdOf env callerPid;
          s1 = emit (Bookkeeping (Bk_collectionAlreadyExists collectionName)) s;
          existsResult = fst (bkdb_collectionAlreadyExists (m_bkdb env) collectionName);
          exists = snd (bkdb_collectionAlreadyExists (m_bkdb env) collectionName)
      in if code existsResult \<noteq> Succeeded then (existsResult, s1)
         else if exists then (ResultError CollectionAlreadyExistsError, s1)
         else
           let ikdRequest = InteractionParameters0
                 \<lparr>ip_applicationId := callerApplicationId,
                  ip_collectionName := collectionName,
                  ip_operation := CreateCollection,
                  ip_inputType := AlphaNumericInput,
                  ip_echoMode := PasswordEchoOnEdit\<rparr>;
               s2 = emit (BeginUserInputInteraction authenticationPluginName callerPid
                            requestId ikdRequest interactionServiceAddress) s1;
               interactionResult =
                 beginUserInputInteraction (plugins env) authenticationPluginName callerPid
                   requestId ikdRequest interactionServiceAddress
           in if code interactionResult = Failed then (interactionResult, s2)
              else
                (ResultOf Pending,
                 insertPendingRequest requestId callerPid CreateCustomLockCollectionRequest
                   [VString collectionName, VString storagePluginName,
                    VString encryptionPluginName, VString authenticationPluginName,
                    VUnlockSemantic unlockSemantic, VInt customLockTimeoutMs,
                    VAccessControlMode accessControlMode,
                    VUserInteractionMode userInteractionMode,
                    VString interactionServiceAddress] s2))"

subsection \<open>deleteCollection\<close>

definition deleteCollection ::
  "Env \<Rightarrow> pid_t \<Rightarrow> quint64 \<Rightarrow> QString \<Rightarrow> UserInteractionMode \<Rightarrow> State \<Rightarrow> Result \<times> State"
  where
  "deleteCollection env callerPid requestId collectionName userInteractionMode s =
   (if compareCaseInsensitive collectionName ''standalone''
    then (ResultError InvalidCollectionError, s)
    else if collectionName = []
    then (ResultError InvalidCollectionError, s)
    else
      let callerApplicationId = callerApplicationIdOf env callerPid;
          s1 = emit (Bookkeeping (Bk_collectionMetadata collectionName)) s;
          metadataResult = fst (bkdb_collectionMetadata (m_bkdb env) collectionName);
          found = snd (bkdb_collectionMetadata (m_bkdb env) collectionName)
      in if code metadataResult \<noteq> Succeeded then (metadataResult, s1)
         else case found of
           None \<Rightarrow> (ResultOf Succeeded, s1)
         | Some collection \<Rightarrow>
           (if md_accessControlMode collection = SystemAccessControlMode
            then (ResultError OperationNotSupportedError, s1)
            else if md_accessControlMode collection = OwnerOnlyMode
                    \<and> md_applicationId collection \<noteq> callerApplicationId
            then (ResultError PermissionsError, s1)
            else if md_storagePluginName collection = md_encryptionPluginName collection
                    \<and> md_storagePluginName collection \<notin> m_encryptedStoragePlugins (plugins env)
            then (ResultError InvalidExtensionPluginError, s1)
            else if md_storagePluginName collection \<noteq> md_encryptionPluginName collection
                    \<and> (md_storagePluginName collection = []
                        \<or> md_storagePluginName collection \<notin> m_storagePlugins (plugins env))
            then (ResultError InvalidExtensionPluginError, s1)
            else if md_accessControlMode collection = OwnerOnlyMode
                    \<and> md_applicationId collection \<noteq> callerApplicationId
            then (ResultError PermissionsError, s1)
            else
              let s2 = preventInterleavedRequests collectionName s1
              in (ResultOf Pending,
                  emit (Watch
                    (if md_storagePluginName collection = md_encryptionPluginName collection
                     then EncryptedStorage_removeCollection (md_storagePluginName collection)
                            collectionName
                     else Storage_removeCollection (md_storagePluginName collection)
                            collectionName)
                    (K_deleteCollection callerPid requestId collectionName
                       (md_accessControlMode collection))) s2)))"

definition deleteCollectionFinalise ::
  "Env \<Rightarrow> pid_t \<Rightarrow> quint64 \<Rightarrow> QString \<Rightarrow> AccessControlMode \<Rightarrow> State \<Rightarrow> State" where
  "deleteCollectionFinalise env callerPid requestId collectionName
     collectionAccessControlMode s =
   (let s0 = removeCollectionEncryptionKey collectionName s;
        s1 = s0\<lparr>m_collectionLockTimers :=
                  AList.delete collectionName (m_collectionLockTimers s0)\<rparr>;
        s2 = emit (Bookkeeping (Bk_deleteCollection collectionName)) s1;
        deleteResult = bkdb_deleteCollection (m_bkdb env) collectionName
    in if code deleteResult \<noteq> Succeeded
       then emit (RequestFinished requestId [VResult deleteResult]) s2
       else emit (RequestFinished requestId [VResult (ResultOf Succeeded)]) s2)"

text \<open>The slot for \<open>K_deleteCollection\<close>.\<close>

definition deleteCollection_finished ::
  "Env \<Rightarrow> pid_t \<Rightarrow> quint64 \<Rightarrow> QString \<Rightarrow> AccessControlMode \<Rightarrow> Result \<Rightarrow> State \<Rightarrow> State"
  where
  "deleteCollection_finished env callerPid requestId collectionName
     collectionAccessControlMode pluginResult s =
   (let s1 = allowInterleavedRequests collectionName s
    in if code pluginResult = Failed
       then emit (RequestFinished requestId [VResult pluginResult]) s1
       else deleteCollectionFinalise env callerPid requestId collectionName
              collectionAccessControlMode s1)"

section \<open>Secrets in collections\<close>

text \<open>
  The callers pass the columns of the collection's row one by one
  (\<^verbatim>\<open>collectionUsesDeviceLockKey\<close>, \<^verbatim>\<open>collectionApplicationId\<close>, ...); the model passes the
  row, \<open>collection\<close>. \<^verbatim>\<open>QMap::value\<close> of a missing key is a default-constructed value.
\<close>

definition valueOf :: "(QString \<rightharpoonup> QByteArray) \<Rightarrow> QString \<Rightarrow> QByteArray" where
  "valueOf m k = (case m k of None \<Rightarrow> [] | Some v \<Rightarrow> v)"

subsection \<open>setCollectionSecretMetadata and deleteCollectionSecretMetadata\<close>

definition setCollectionSecretMetadata ::
  "Env \<Rightarrow> pid_t \<Rightarrow> quint64 \<Rightarrow> Identifier \<Rightarrow> State \<Rightarrow> Result \<times> State" where
  "setCollectionSecretMetadata env callerPid requestId identifier s =
   (if id_name identifier = []
    then (ResultError InvalidSecretError, s)
    else if id_collectionName identifier = []
    then (ResultError InvalidCollectionError, s)
    else if compareCaseInsensitive (id_collectionName identifier) ''standalone''
    then (ResultError InvalidCollectionError, s)
    else if \<not> interleavedRequestsAllowed (id_collectionName identifier) s
    then (interleavedRequestError, s)
    else
      let callerApplicationId = callerApplicationIdOf env callerPid;
          s1 = emit (Bookkeeping (Bk_collectionMetadata (id_collectionName identifier))) s;
          metadataResult =
            fst (bkdb_collectionMetadata (m_bkdb env) (id_collectionName identifier));
          found = snd (bkdb_collectionMetadata (m_bkdb env) (id_collectionName identifier))
      in if code metadataResult \<noteq> Succeeded then (metadataResult, s1)
         else case found of
           None \<Rightarrow> (ResultError InvalidCollectionError, s1)
         | Some collection \<Rightarrow>
           (if md_accessControlMode collection = SystemAccessControlMode
            then (ResultError OperationNotSupportedError, s1)
            else if md_accessControlMode collection = OwnerOnlyMode
                    \<and> md_applicationId collection \<noteq> callerApplicationId
            then (ResultError PermissionsError, s1)
            else if md_storagePluginName collection = md_encryptionPluginName collection
                    \<and> md_storagePluginName collection \<notin> m_encryptedStoragePlugins (plugins env)
            then (ResultError InvalidExtensionPluginError, s1)
            else if md_storagePluginName collection \<noteq> md_encryptionPluginName collection
                    \<and> (md_storagePluginName collection = []
                        \<or> md_storagePluginName collection \<notin> m_storagePlugins (plugins env))
            then (ResultError InvalidExtensionPluginError, s1)
            else if md_storagePluginName collection \<noteq> md_encryptionPluginName collection
                    \<and> (md_encryptionPluginName collection = []
                        \<or> md_encryptionPluginName collection
                             \<notin> m_encryptionPlugins (plugins env))
            then (ResultError InvalidExtensionPluginError, s1)
            else if md_storagePluginName collection \<noteq> md_encryptionPluginName collection
            then (ResultError InvalidExtensionPluginError, s1)
            else
              let s2 = emit (ThreadPool (EncryptedStorage_isCollectionLocked
                         (md_storagePluginName collection) (id_collectionName identifier))) s1;
                  pluginResult = fst (isCollectionLocked (plugins env)
                         (md_storagePluginName collection) (id_collectionName identifier));
                  locked = snd (isCollectionLocked (plugins env)
                         (md_storagePluginName collection) (id_collectionName identifier))
              in if code pluginResult \<noteq> Succeeded then (pluginResult, s2)
                 else if locked
                 then (if md_usesDeviceLockKey collection
                       then (ResultError CollectionIsLockedError, s2)
                       else (ResultError OperationRequiresUserInteraction, s2))
                 else
                   let hashedSecretName = generateHashedSecretName env
                         (id_collectionName identifier) (id_name identifier);
                       s3 = emit (Bookkeeping (Bk_secretAlreadyExists
                              (id_collectionName identifier) hashedSecretName)) s2;
                       existsResult = fst (bkdb_secretAlreadyExists (m_bkdb env)
                              (id_collectionName identifier) hashedSecretName);
                       secretAlreadyExists = snd (bkdb_secretAlreadyExists (m_bkdb env)
                              (id_collectionName identifier) hashedSecretName)
                   in if code existsResult \<noteq> Succeeded then (existsResult, s3)
                      else if secretAlreadyExists
                      then (ResultError SecretAlreadyExistsError, s3)
                      else
                        (bkdb_insertSecret (m_bkdb env) (id_collectionName identifier)
                           hashedSecretName collection,
                         emit (Bookkeeping (Bk_insertSecret (id_collectionName identifier)
                                 hashedSecretName collection)) s3)))"

definition deleteCollectionSecretMetadata ::
  "Env \<Rightarrow> pid_t \<Rightarrow> quint64 \<Rightarrow> Identifier \<Rightarrow> State \<Rightarrow> Result \<times> State" where
  "deleteCollectionSecretMetadata env callerPid requestId identifier s =
   (if id_name identifier = []
    then (ResultError InvalidSecretError, s)
    else if id_collectionName identifier = []
    then (ResultError InvalidCollectionError, s)
    else if compareCaseInsensitive (id_collectionName identifier) ''standalone''
    then (ResultError InvalidCollectionError, s)
    else
      let hashedSecretName = generateHashedSecretName env
            (id_collectionName identifier) (id_name identifier)
      in (bkdb_deleteSecret (m_bkdb env) (id_collectionName identifier) hashedSecretName,
          emit (Bookkeeping (Bk_deleteSecret (id_collectionName identifier)
                  hashedSecretName)) s))"

subsection \<open>setCollectionSecret\<close>



definition setCollectionSecretWithEncryptionKey ::
  "Env \<Rightarrow> pid_t \<Rightarrow> quint64 \<Rightarrow> Secret \<Rightarrow> UserInteractionMode \<Rightarrow> QString \<Rightarrow> Metadata \<Rightarrow>
   QByteArray \<Rightarrow> State \<Rightarrow> State" where
  "setCollectionSecretWithEncryptionKey env callerPid requestId secret userInteractionMode
     interactionServiceAddress collection encryptionKey s =
   (let collectionName = id_collectionName (sec_identifier secret);
        hashedSecretName =
          generateHashedSecretName env collectionName (id_name (sec_identifier secret));
        s1 = emit (Bookkeeping (Bk_secretAlreadyExists collectionName hashedSecretName)) s;
        existsResult =
          fst (bkdb_secretAlreadyExists (m_bkdb env) collectionName hashedSecretName);
        secretAlreadyExists =
          snd (bkdb_secretAlreadyExists (m_bkdb env) collectionName hashedSecretName);
        insertResult =
          bkdb_insertSecret (m_bkdb env) collectionName hashedSecretName collection;
        s2 = (if secretAlreadyExists then s1
              else emit (Bookkeeping (Bk_insertSecret collectionName hashedSecretName
                           collection)) s1)
    in if code existsResult \<noteq> Succeeded
       then emit (RequestFinished requestId [VResult existsResult]) s1
       else if \<not> secretAlreadyExists \<and> code insertResult \<noteq> Succeeded
       then emit (RequestFinished requestId [VResult insertResult]) s2
       else if md_storagePluginName collection = md_encryptionPluginName collection
       then emit (Watch
              (EncryptedStorage_unlockCollectionAndStoreSecret
                 (md_storagePluginName collection) secret hashedSecretName encryptionKey)
              (K_setCollectionSecretWithEncryptionKey callerPid requestId secret
                 secretAlreadyExists hashedSecretName)) s2
       else
         let s3 = (if m_collectionEncryptionKeys s2 collectionName = None
                   then s2\<lparr>m_collectionEncryptionKeys :=
                             (m_collectionEncryptionKeys s2)(collectionName \<mapsto> encryptionKey)\<rparr>
                   else s2)
         in emit (Watch
              (Storage_encryptAndStoreSecret (md_encryptionPluginName collection)
                 (md_storagePluginName collection) secret hashedSecretName encryptionKey)
              (K_setCollectionSecretWithEncryptionKey callerPid requestId secret
                 secretAlreadyExists hashedSecretName)) s3)"

text \<open>
  The user input flow that asks for the passphrase of a locked collection.
  \<open>setCollectionSecretGetAuthenticationCode\<close> writes it out twice, once for an encrypted
  storage plugin and once for split plugins. The authentication plugin is fetched with
  \<^verbatim>\<open>m_authenticationPlugins[...]\<close> and no test that the map contains it.
\<close>

definition setCollectionSecret_userInputFlow ::
  "Env \<Rightarrow> pid_t \<Rightarrow> quint64 \<Rightarrow> Secret \<Rightarrow> UserInteractionMode \<Rightarrow> QString \<Rightarrow> Metadata \<Rightarrow>
   State \<Rightarrow> Outcome \<times> State" where
  "setCollectionSecret_userInputFlow env callerPid requestId secret userInteractionMode
     interactionServiceAddress collection s =
   (if md_usesDeviceLockKey collection
    then (Return (ResultError CollectionIsLockedError), s)
    else if userInteractionMode = PreventInteraction
    then (Return (ResultError OperationRequiresUserInteraction), s)
    else if md_authenticationPluginName collection \<notin> m_authenticationPlugins (plugins env)
    then (NullPointerDereference, s)
    else
      let ikdRequest = InteractionParameters0
            \<lparr>ip_applicationId := callerApplicationIdOf env callerPid,
             ip_collectionName := id_collectionName (sec_identifier secret),
             ip_secretName := id_name (sec_identifier secret),
             ip_operation := StoreSecret,
             ip_inputType := AlphaNumericInput,
             ip_echoMode := PasswordEchoOnEdit\<rparr>;
          s1 = emit (BeginUserInputInteraction (md_authenticationPluginName collection)
                       callerPid requestId ikdRequest interactionServiceAddress) s;
          interactionResult =
            beginUserInputInteraction (plugins env) (md_authenticationPluginName collection)
              callerPid requestId ikdRequest interactionServiceAddress
      in if code interactionResult = Failed then (Return interactionResult, s1)
         else
           (Return (ResultOf Pending),
            insertPendingRequest requestId callerPid SetCollectionSecretRequest
              [VSecret secret, VUserInteractionMode userInteractionMode,
               VString interactionServiceAddress,
               VBool (md_usesDeviceLockKey collection),
               VString (md_applicationId collection),
               VString (md_storagePluginName collection),
               VString (md_encryptionPluginName collection),
               VString (md_authenticationPluginName collection),
               VUnlockSemantic (md_unlockSemantic collection),
               VInt (md_customLockTimeoutMs collection),
               VAccessControlMode (md_accessControlMode collection)] s1))"

definition setCollectionSecretGetAuthenticationCode ::
  "Env \<Rightarrow> pid_t \<Rightarrow> quint64 \<Rightarrow> Secret \<Rightarrow> UserInteractionMode \<Rightarrow> QString \<Rightarrow> Metadata \<Rightarrow>
   State \<Rightarrow> Outcome \<times> State" where
  "setCollectionSecretGetAuthenticationCode env callerPid requestId secret userInteractionMode
     interactionServiceAddress collection s =
   (if md_storagePluginName collection = md_encryptionPluginName collection
    then
      let s1 = emit (ThreadPool (EncryptedStorage_isCollectionLocked
                 (md_storagePluginName collection)
                 (id_collectionName (sec_identifier secret)))) s;
          pluginResult = fst (isCollectionLocked (plugins env)
                 (md_storagePluginName collection)
                 (id_collectionName (sec_identifier secret)));
          locked = snd (isCollectionLocked (plugins env)
                 (md_storagePluginName collection)
                 (id_collectionName (sec_identifier secret)))
      in if code pluginResult \<noteq> Succeeded then (Return pluginResult, s1)
         else if \<not> locked
         then (Return (ResultOf Pending),
               setCollectionSecretWithEncryptionKey env callerPid requestId secret
                 userInteractionMode interactionServiceAddress collection [] s1)
         else setCollectionSecret_userInputFlow env callerPid requestId secret
                userInteractionMode interactionServiceAddress collection s1
    else if m_collectionEncryptionKeys s (id_collectionName (sec_identifier secret)) \<noteq> None
    then (Return (ResultOf Pending),
          setCollectionSecretWithEncryptionKey env callerPid requestId secret
            userInteractionMode interactionServiceAddress collection
            (valueOf (m_collectionEncryptionKeys s)
               (id_collectionName (sec_identifier secret))) s)
    else setCollectionSecret_userInputFlow env callerPid requestId secret
           userInteractionMode interactionServiceAddress collection s)"

definition setCollectionSecret ::
  "Env \<Rightarrow> pid_t \<Rightarrow> quint64 \<Rightarrow> Secret \<Rightarrow> InteractionParameters \<Rightarrow> UserInteractionMode \<Rightarrow>
   QString \<Rightarrow> State \<Rightarrow> Outcome \<times> State" where
  "setCollectionSecret env callerPid requestId secret uiParams userInteractionMode
     interactionServiceAddress s =
   (if id_name (sec_identifier secret) = []
    then (Return (ResultError InvalidSecretError), s)
    else if id_collectionName (sec_identifier secret) = []
    then (Return (ResultError InvalidCollectionError), s)
    else if compareCaseInsensitive (id_collectionName (sec_identifier secret)) ''standalone''
    then (Return (ResultError InvalidCollectionError), s)
    else
      let callerApplicationId = callerApplicationIdOf env callerPid;
          collectionName = id_collectionName (sec_identifier secret);
          s1 = emit (Bookkeeping (Bk_collectionMetadata collectionName)) s;
          metadataResult = fst (bkdb_collectionMetadata (m_bkdb env) collectionName);
          found = snd (bkdb_collectionMetadata (m_bkdb env) collectionName)
      in if code metadataResult \<noteq> Succeeded then (Return metadataResult, s1)
         else case found of
           None \<Rightarrow> (Return (ResultError InvalidCollectionError), s1)
         | Some collection \<Rightarrow>
           (if md_accessControlMode collection = SystemAccessControlMode
            then (Return (ResultError OperationNotSupportedError), s1)
            else if md_accessControlMode collection = OwnerOnlyMode
                    \<and> md_applicationId collection \<noteq> callerApplicationId
            then (Return (ResultError PermissionsError), s1)
            else if md_storagePluginName collection = md_encryptionPluginName collection
                    \<and> md_storagePluginName collection \<notin> m_encryptedStoragePlugins (plugins env)
            then (Return (ResultError InvalidExtensionPluginError), s1)
            else if md_storagePluginName collection \<noteq> md_encryptionPluginName collection
                    \<and> (md_storagePluginName collection = []
                        \<or> md_storagePluginName collection \<notin> m_storagePlugins (plugins env))
            then (Return (ResultError InvalidExtensionPluginError), s1)
            else if md_storagePluginName collection \<noteq> md_encryptionPluginName collection
                    \<and> (md_encryptionPluginName collection = []
                        \<or> md_encryptionPluginName collection
                             \<notin> m_encryptionPlugins (plugins env))
            then (Return (ResultError InvalidExtensionPluginError), s1)
            else if \<not> isValid env uiParams
            then setCollectionSecretGetAuthenticationCode env callerPid requestId secret
                   userInteractionMode interactionServiceAddress collection s1
            else if userInputPluginOf env uiParams \<notin> m_authenticationPlugins (plugins env)
            then (Return (ResultError InvalidExtensionPluginError), s1)
            else
              let modifiedUiParams = uiParams
                    \<lparr>ip_applicationId := callerApplicationId,
                     ip_collectionName := collectionName,
                     ip_secretName := id_name (sec_identifier secret),
                     ip_operation := RequestUserData\<rparr>;
                  s2 = emit (BeginUserInputInteraction (userInputPluginOf env uiParams)
                         callerPid requestId modifiedUiParams interactionServiceAddress) s1;
                  authenticationResult =
                    beginUserInputInteraction (plugins env) (userInputPluginOf env uiParams)
                      callerPid requestId modifiedUiParams interactionServiceAddress
              in if code authenticationResult = Failed
                 then (Return authenticationResult, s2)
                 else
                   (Return (ResultOf Pending),
                    insertPendingRequest requestId callerPid
                      SetCollectionUserInputSecretRequest
                      [VSecret secret, VInteractionParameters modifiedUiParams,
                       VUserInteractionMode userInteractionMode,
                       VString interactionServiceAddress,
                       VBool (md_usesDeviceLockKey collection),
                       VString (md_applicationId collection),
                       VString (md_storagePluginName collection),
                       VString (md_encryptionPluginName collection),
                       VString (md_authenticationPluginName collection),
                       VUnlockSemantic (md_unlockSemantic collection),
                       VInt (md_customLockTimeoutMs collection),
                       VAccessControlMode (md_accessControlMode collection)] s2)))"

subsection \<open>getCollectionSecret\<close>

text \<open>
  \<^verbatim>\<open>new QTimer\<close>, \<^verbatim>\<open>setInterval\<close>, \<^verbatim>\<open>setSingleShot(true)\<close>, \<^verbatim>\<open>start\<close>: a fresh single-shot
  timer, started.
\<close>

definition newTimer :: "int \<Rightarrow> State \<Rightarrow> QTimer" where
  "newTimer interval s =
     \<lparr>timer_id = timersCreated s, timer_interval = interval, timer_singleShot = True\<rparr>"

definition getCollectionSecretWithEncryptionKey ::
  "Env \<Rightarrow> pid_t \<Rightarrow> quint64 \<Rightarrow> Identifier \<Rightarrow> UserInteractionMode \<Rightarrow> QString \<Rightarrow> QString \<Rightarrow>
   QString \<Rightarrow> UnlockSemantic \<Rightarrow> int \<Rightarrow> QByteArray \<Rightarrow> State \<Rightarrow> State" where
  "getCollectionSecretWithEncryptionKey env callerPid requestId identifier userInteractionMode
     interactionServiceAddress storagePluginName encryptionPluginName
     collectionUnlockSemantic collectionCustomLockTimeoutMs encryptionKey s =
   (let s1 = (if collectionUnlockSemantic = CustomLockTimoutRelock
                 \<and> map_of (m_collectionLockTimers s) (id_collectionName identifier) = None
              then emit (TimerStart (newTimer collectionCustomLockTimeoutMs s))
                     (s\<lparr>m_collectionLockTimers :=
                          AList.update (id_collectionName identifier)
                            (newTimer collectionCustomLockTimeoutMs s)
                            (m_collectionLockTimers s),
                        timersCreated := timersCreated s + 1\<rparr>)
              else s);
        hashedSecretName = generateHashedSecretName env (id_collectionName identifier)
                             (id_name identifier)
    in if storagePluginName = encryptionPluginName
       then emit (Watch
              (EncryptedStorage_unlockCollectionAndReadSecret storagePluginName identifier
                 hashedSecretName encryptionKey)
              (K_getCollectionSecretWithEncryptionKey requestId)) s1
       else
         let s2 = (if m_collectionEncryptionKeys s1 (id_collectionName identifier) = None
                   then s1\<lparr>m_collectionEncryptionKeys :=
                             (m_collectionEncryptionKeys s1)
                               (id_collectionName identifier \<mapsto> encryptionKey)\<rparr>
                   else s1)
         in emit (Watch
              (Storage_getAndDecryptSecret encryptionPluginName storagePluginName identifier
                 hashedSecretName
                 (valueOf (m_collectionEncryptionKeys s2) (id_collectionName identifier)))
              (K_getCollectionSecretWithEncryptionKey requestId)) s2)"

text \<open>
  The slot for \<open>K_getCollectionSecretWithEncryptionKey\<close>: the plugin's result and the
  secret it read are delivered to the client.
\<close>

definition getCollectionSecretWithEncryptionKey_finished ::
  "quint64 \<Rightarrow> Result \<Rightarrow> Secret \<Rightarrow> State \<Rightarrow> State" where
  "getCollectionSecretWithEncryptionKey_finished requestId srResult srSecret s =
     emit (RequestFinished requestId [VResult srResult, VSecret srSecret]) s"

text \<open>
  The user input flow of \<open>getCollectionSecret\<close>, written out in the source once for an
  encrypted storage plugin and once for split plugins.
\<close>

definition getCollectionSecret_userInputFlow ::
  "Env \<Rightarrow> pid_t \<Rightarrow> quint64 \<Rightarrow> Identifier \<Rightarrow> UserInteractionMode \<Rightarrow> QString \<Rightarrow> Metadata \<Rightarrow>
   State \<Rightarrow> Result \<times> State" where
  "getCollectionSecret_userInputFlow env callerPid requestId identifier userInteractionMode
     interactionServiceAddress collection s =
   (if userInteractionMode = PreventInteraction
    then (ResultError OperationRequiresUserInteraction, s)
    else if authenticationTypes_ApplicationSpecific (plugins env)
              (md_authenticationPluginName collection)
            \<and> (userInteractionMode \<noteq> ApplicationInteraction \<or> interactionServiceAddress = [])
    then (ResultError OperationRequiresApplicationUserInteraction, s)
    else
      let ikdRequest = InteractionParameters0
            \<lparr>ip_applicationId := callerApplicationIdOf env callerPid,
             ip_collectionName := id_collectionName identifier,
             ip_secretName := id_name identifier,
             ip_operation := ReadSecret,
             ip_inputType := AlphaNumericInput,
             ip_echoMode := PasswordEchoOnEdit\<rparr>;
          s1 = emit (BeginUserInputInteraction (md_authenticationPluginName collection)
                       callerPid requestId ikdRequest interactionServiceAddress) s;
          interactionResult =
            beginUserInputInteraction (plugins env) (md_authenticationPluginName collection)
              callerPid requestId ikdRequest interactionServiceAddress
      in if code interactionResult = Failed then (interactionResult, s1)
         else
           (ResultOf Pending,
            insertPendingRequest requestId callerPid GetCollectionSecretRequest
              [VIdentifier identifier, VUserInteractionMode userInteractionMode,
               VString interactionServiceAddress,
               VString (md_storagePluginName collection),
               VString (md_encryptionPluginName collection),
               VUnlockSemantic (md_unlockSemantic collection),
               VInt (md_customLockTimeoutMs collection)] s1))"

definition getCollectionSecret ::
  "Env \<Rightarrow> pid_t \<Rightarrow> quint64 \<Rightarrow> Identifier \<Rightarrow> UserInteractionMode \<Rightarrow> QString \<Rightarrow> State \<Rightarrow>
   Result \<times> State" where
  "getCollectionSecret env callerPid requestId identifier userInteractionMode
     interactionServiceAddress s =
   (if id_name identifier = []
    then (ResultError InvalidSecretError, s)
    else if id_collectionName identifier = []
    then (ResultError InvalidCollectionError, s)
    else if compareCaseInsensitive (id_collectionName identifier) ''standalone''
    then (ResultError InvalidCollectionError, s)
    else
      let callerApplicationId = callerApplicationIdOf env callerPid;
          s1 = emit (Bookkeeping (Bk_collectionMetadata (id_collectionName identifier))) s;
          metadataResult =
            fst (bkdb_collectionMetadata (m_bkdb env) (id_collectionName identifier));
          found = snd (bkdb_collectionMetadata (m_bkdb env) (id_collectionName identifier))
      in if code metadataResult \<noteq> Succeeded then (metadataResult, s1)
         else case found of
           None \<Rightarrow> (ResultError InvalidCollectionError, s1)
         | Some collection \<Rightarrow>
           (if md_storagePluginName collection = md_encryptionPluginName collection
               \<and> md_storagePluginName collection \<notin> m_encryptedStoragePlugins (plugins env)
            then (ResultError InvalidExtensionPluginError, s1)
            else if md_storagePluginName collection \<noteq> md_encryptionPluginName collection
                    \<and> md_storagePluginName collection \<notin> m_storagePlugins (plugins env)
            then (ResultError InvalidExtensionPluginError, s1)
            else if md_storagePluginName collection \<noteq> md_encryptionPluginName collection
                    \<and> md_encryptionPluginName collection \<notin> m_encryptionPlugins (plugins env)
            then (ResultError InvalidExtensionPluginError, s1)
            else if md_accessControlMode collection = SystemAccessControlMode
            then (ResultError OperationNotSupportedError, s1)
            else if md_accessControlMode collection = OwnerOnlyMode
                    \<and> md_applicationId collection \<noteq> callerApplicationId
            then (ResultError PermissionsError, s1)
            else if md_authenticationPluginName collection
                      \<notin> m_authenticationPlugins (plugins env)
            then (ResultError InvalidExtensionPluginError, s1)
            else if md_storagePluginName collection = md_encryptionPluginName collection
            then
              let s2 = emit (ThreadPool (EncryptedStorage_isCollectionLocked
                         (md_storagePluginName collection) (id_collectionName identifier))) s1;
                  pluginResult = fst (isCollectionLocked (plugins env)
                         (md_storagePluginName collection) (id_collectionName identifier));
                  locked = snd (isCollectionLocked (plugins env)
                         (md_storagePluginName collection) (id_collectionName identifier))
              in if code pluginResult \<noteq> Succeeded then (pluginResult, s2)
                 else if locked
                 then (if md_usesDeviceLockKey collection
                       then (ResultError CollectionIsLockedError, s2)
                       else getCollectionSecret_userInputFlow env callerPid requestId
                              identifier userInteractionMode interactionServiceAddress
                              collection s2)
                 else
                   (ResultOf Pending,
                    getCollectionSecretWithEncryptionKey env callerPid requestId identifier
                      userInteractionMode interactionServiceAddress
                      (md_storagePluginName collection) (md_encryptionPluginName collection)
                      (md_unlockSemantic collection) (md_customLockTimeoutMs collection)
                      [] s2)
            else if m_collectionEncryptionKeys s1 (id_collectionName identifier) = None
            then (if md_usesDeviceLockKey collection
                  then (ResultError CollectionIsLockedError, s1)
                  else getCollectionSecret_userInputFlow env callerPid requestId identifier
                         userInteractionMode interactionServiceAddress collection s1)
            else
              (ResultOf Pending,
               getCollectionSecretWithEncryptionKey env callerPid requestId identifier
                 userInteractionMode interactionServiceAddress
                 (md_storagePluginName collection) (md_encryptionPluginName collection)
                 (md_unlockSemantic collection) (md_customLockTimeoutMs collection)
                 (valueOf (m_collectionEncryptionKeys s1) (id_collectionName identifier))
                 s1)))"

subsection \<open>findCollectionSecrets\<close>

definition findCollectionSecretsWithEncryptionKey ::
  "Env \<Rightarrow> pid_t \<Rightarrow> quint64 \<Rightarrow> QString \<Rightarrow> (QString \<times> QString) list \<Rightarrow> FilterOperator \<Rightarrow>
   UserInteractionMode \<Rightarrow> QString \<Rightarrow> QString \<Rightarrow> QString \<Rightarrow> UnlockSemantic \<Rightarrow> int \<Rightarrow>
   QByteArray \<Rightarrow> State \<Rightarrow> State" where
  "findCollectionSecretsWithEncryptionKey env callerPid requestId collectionName filterData
     filterOperator userInteractionMode interactionServiceAddress storagePluginName
     encryptionPluginName collectionUnlockSemantic collectionCustomLockTimeoutMs
     encryptionKey s =
   (let s1 = (if collectionUnlockSemantic = CustomLockTimoutRelock
                 \<and> map_of (m_collectionLockTimers s) collectionName = None
              then emit (TimerStart (newTimer collectionCustomLockTimeoutMs s))
                     (s\<lparr>m_collectionLockTimers :=
                          AList.update collectionName
                            (newTimer collectionCustomLockTimeoutMs s)
                            (m_collectionLockTimers s),
                        timersCreated := timersCreated s + 1\<rparr>)
              else s)
    in if storagePluginName = encryptionPluginName
       then emit (Watch
              (EncryptedStorage_unlockAndFindSecrets encryptionPluginName collectionName
                 filterData filterOperator encryptionKey)
              (K_findCollectionSecretsWithEncryptionKey requestId)) s1
       else
         let s2 = (if m_collectionEncryptionKeys s1 collectionName = None
                   then s1\<lparr>m_collectionEncryptionKeys :=
                             (m_collectionEncryptionKeys s1)(collectionName \<mapsto> encryptionKey)\<rparr>
                   else s1)
         in emit (Watch
              (Storage_findAndDecryptSecretNames encryptionPluginName storagePluginName
                 collectionName filterData filterOperator
                 (valueOf (m_collectionEncryptionKeys s2) collectionName))
              (K_findCollectionSecretsWithEncryptionKey requestId)) s2)"

text \<open>The slot for \<open>K_findCollectionSecretsWithEncryptionKey\<close>.\<close>

definition findCollectionSecretsWithEncryptionKey_finished ::
  "quint64 \<Rightarrow> Result \<Rightarrow> Identifier list \<Rightarrow> State \<Rightarrow> State" where
  "findCollectionSecretsWithEncryptionKey_finished requestId irResult irIdentifiers s =
     emit (RequestFinished requestId [VResult irResult, VIdentifiers irIdentifiers]) s"

text \<open>The user input flow of \<open>findCollectionSecrets\<close>, written out twice in the source.\<close>

definition findCollectionSecrets_userInputFlow ::
  "Env \<Rightarrow> pid_t \<Rightarrow> quint64 \<Rightarrow> QString \<Rightarrow> (QString \<times> QString) list \<Rightarrow> FilterOperator \<Rightarrow>
   UserInteractionMode \<Rightarrow> QString \<Rightarrow> Metadata \<Rightarrow> State \<Rightarrow> Result \<times> State" where
  "findCollectionSecrets_userInputFlow env callerPid requestId collectionName filterData
     filterOperator userInteractionMode interactionServiceAddress collection s =
   (if userInteractionMode = PreventInteraction
    then (ResultError OperationRequiresUserInteraction, s)
    else if authenticationTypes_ApplicationSpecific (plugins env)
              (md_authenticationPluginName collection)
            \<and> (userInteractionMode \<noteq> ApplicationInteraction \<or> interactionServiceAddress = [])
    then (ResultError OperationRequiresApplicationUserInteraction, s)
    else
      let ikdRequest = InteractionParameters0
            \<lparr>ip_applicationId := callerApplicationIdOf env callerPid,
             ip_collectionName := collectionName,
             ip_secretName := [],
             ip_operation := UnlockCollection,
             ip_inputType := AlphaNumericInput,
             ip_echoMode := PasswordEchoOnEdit\<rparr>;
          s1 = emit (BeginUserInputInteraction (md_authenticationPluginName collection)
                       callerPid requestId ikdRequest interactionServiceAddress) s;
          interactionResult =
            beginUserInputInteraction (plugins env) (md_authenticationPluginName collection)
              callerPid requestId ikdRequest interactionServiceAddress
      in if code interactionResult = Failed then (interactionResult, s1)
         else
           (ResultOf Pending,
            insertPendingRequest requestId callerPid FindCollectionSecretsRequest
              [VString collectionName, VFilterData filterData, VFilterOperator filterOperator,
               VUserInteractionMode userInteractionMode,
               VString interactionServiceAddress,
               VString (md_storagePluginName collection),
               VString (md_encryptionPluginName collection),
               VUnlockSemantic (md_unlockSemantic collection),
               VInt (md_customLockTimeoutMs collection)] s1))"

definition findCollectionSecrets ::
  "Env \<Rightarrow> pid_t \<Rightarrow> quint64 \<Rightarrow> QString \<Rightarrow> (QString \<times> QString) list \<Rightarrow> FilterOperator \<Rightarrow>
   UserInteractionMode \<Rightarrow> QString \<Rightarrow> State \<Rightarrow> Result \<times> State" where
  "findCollectionSecrets env callerPid requestId collectionName filterData filterOperator
     userInteractionMode interactionServiceAddress s =
   (if collectionName = []
    then (ResultError InvalidCollectionError, s)
    else if compareCaseInsensitive collectionName ''standalone''
    then (ResultError InvalidCollectionError, s)
    else if filterData = []
    then (ResultError InvalidFilterError, s)
    else
      let callerApplicationId = callerApplicationIdOf env callerPid;
          s1 = emit (Bookkeeping (Bk_collectionMetadata collectionName)) s;
          metadataResult = fst (bkdb_collectionMetadata (m_bkdb env) collectionName);
          found = snd (bkdb_collectionMetadata (m_bkdb env) collectionName)
      in if code metadataResult \<noteq> Succeeded then (metadataResult, s1)
         else case found of
           None \<Rightarrow> (ResultError InvalidCollectionError, s1)
         | Some collection \<Rightarrow>
           (if md_storagePluginName collection = md_encryptionPluginName collection
               \<and> md_storagePluginName collection \<notin> m_encryptedStoragePlugins (plugins env)
            then (ResultError InvalidExtensionPluginError, s1)
            else if md_storagePluginName collection \<noteq> md_encryptionPluginName collection
                    \<and> md_storagePluginName collection \<notin> m_storagePlugins (plugins env)
            then (ResultError InvalidExtensionPluginError, s1)
            else if md_storagePluginName collection \<noteq> md_encryptionPluginName collection
                    \<and> md_encryptionPluginName collection \<notin> m_encryptionPlugins (plugins env)
            then (ResultError InvalidExtensionPluginError, s1)
            else if md_accessControlMode collection = SystemAccessControlMode
            then (ResultError OperationNotSupportedError, s1)
            else if md_accessControlMode collection = OwnerOnlyMode
                    \<and> md_applicationId collection \<noteq> callerApplicationId
            then (ResultError PermissionsError, s1)
            else if md_authenticationPluginName collection
                      \<notin> m_authenticationPlugins (plugins env)
            then (ResultError InvalidExtensionPluginError, s1)
            else if md_storagePluginName collection = md_encryptionPluginName collection
            then
              let s2 = emit (ThreadPool (EncryptedStorage_isCollectionLocked
                         (md_storagePluginName collection) collectionName)) s1;
                  pluginResult = fst (isCollectionLocked (plugins env)
                         (md_storagePluginName collection) collectionName);
                  locked = snd (isCollectionLocked (plugins env)
                         (md_storagePluginName collection) collectionName)
              in if code pluginResult \<noteq> Succeeded then (pluginResult, s2)
                 else if locked
                 then (if md_usesDeviceLockKey collection
                       then (ResultError CollectionIsLockedError, s2)
                       else findCollectionSecrets_userInputFlow env callerPid requestId
                              collectionName filterData filterOperator userInteractionMode
                              interactionServiceAddress collection s2)
                 else
                   (ResultOf Pending,
                    findCollectionSecretsWithEncryptionKey env callerPid requestId
                      collectionName filterData filterOperator userInteractionMode
                      interactionServiceAddress
                      (md_storagePluginName collection) (md_encryptionPluginName collection)
                      (md_unlockSemantic collection) (md_customLockTimeoutMs collection)
                      [] s2)
            else if m_collectionEncryptionKeys s1 collectionName = None
            then (if md_usesDeviceLockKey collection
                  then (ResultError CollectionIsLockedError, s1)
                  else findCollectionSecrets_userInputFlow env callerPid requestId
                         collectionName filterData filterOperator userInteractionMode
                         interactionServiceAddress collection s1)
            else
              (ResultOf Pending,
               findCollectionSecretsWithEncryptionKey env callerPid requestId
                 collectionName filterData filterOperator userInteractionMode
                 interactionServiceAddress
                 (md_storagePluginName collection) (md_encryptionPluginName collection)
                 (md_unlockSemantic collection) (md_customLockTimeoutMs collection)
                 (valueOf (m_collectionEncryptionKeys s1) collectionName) s1)))"

subsection \<open>deleteCollectionSecret\<close>

definition deleteCollectionSecretWithEncryptionKey ::
  "Env \<Rightarrow> pid_t \<Rightarrow> quint64 \<Rightarrow> Identifier \<Rightarrow> UserInteractionMode \<Rightarrow> QString \<Rightarrow>
   QByteArray \<Rightarrow> State \<Rightarrow> State" where
  "deleteCollectionSecretWithEncryptionKey env callerPid requestId identifier
     userInteractionMode interactionServiceAddress encryptionKey s =
   (let callerApplicationId = callerApplicationIdOf env callerPid;
        s1 = emit (Bookkeeping (Bk_collectionMetadata (id_collectionName identifier))) s;
        metadataResult =
          fst (bkdb_collectionMetadata (m_bkdb env) (id_collectionName identifier));
        found = snd (bkdb_collectionMetadata (m_bkdb env) (id_collectionName identifier));
        collection = (case found of None \<Rightarrow> Metadata0 | Some row \<Rightarrow> row);
        returnResult1 =
          (if code metadataResult = Succeeded \<and> found = None
           then ResultError InvalidCollectionError else metadataResult);
        returnResult2 =
          (if code returnResult1 = Succeeded \<and> md_usesDeviceLockKey collection
              \<and> encryptionKey \<noteq> deviceLockKey s1
           then ResultError IncorrectAuthenticationCodeError else returnResult1);
        returnResult =
          (if code returnResult2 = Succeeded
              \<and> md_accessControlMode collection = SystemAccessControlMode
           then ResultError OperationNotSupportedError
           else if code returnResult2 = Succeeded
                   \<and> md_accessControlMode collection = OwnerOnlyMode
                   \<and> md_applicationId collection \<noteq> callerApplicationId
           then ResultError PermissionsError
           else returnResult2)
    in if code returnResult \<noteq> Succeeded
       then emit (RequestFinished requestId [VResult returnResult]) s1
       else
         let hashedSecretName = generateHashedSecretName env (id_collectionName identifier)
                                  (id_name identifier)
         in if md_storagePluginName collection = md_encryptionPluginName collection
            then emit (Watch
                   (EncryptedStorage_unlockCollectionAndRemoveSecret
                      (md_encryptionPluginName collection) identifier hashedSecretName
                      encryptionKey)
                   (K_deleteCollectionSecretWithEncryptionKey requestId identifier
                      hashedSecretName (md_accessControlMode collection))) s1
            else
              let s2 = (if m_collectionEncryptionKeys s1 (id_collectionName identifier) = None
                        then s1\<lparr>m_collectionEncryptionKeys :=
                                  (m_collectionEncryptionKeys s1)
                                    (id_collectionName identifier \<mapsto> encryptionKey)\<rparr>
                        else s1)
              in emit (Watch
                   (Storage_removeSecret (md_storagePluginName collection)
                      (id_collectionName identifier) hashedSecretName)
                   (K_deleteCollectionSecretWithEncryptionKey requestId identifier
                      hashedSecretName (md_accessControlMode collection))) s2)"

text \<open>The slot for \<open>K_deleteCollectionSecretWithEncryptionKey\<close>.\<close>

definition deleteCollectionSecretWithEncryptionKey_finished ::
  "Env \<Rightarrow> quint64 \<Rightarrow> Identifier \<Rightarrow> QString \<Rightarrow> AccessControlMode \<Rightarrow> Result \<Rightarrow> State \<Rightarrow> State"
  where
  "deleteCollectionSecretWithEncryptionKey_finished env requestId identifier hashedSecretName
     collectionAccessControlMode pluginResult s =
   (if code pluginResult = Succeeded
    then
      let s1 = emit (Bookkeeping (Bk_deleteSecret (id_collectionName identifier)
                       hashedSecretName)) s;
          deleteResult = bkdb_deleteSecret (m_bkdb env) (id_collectionName identifier)
                           hashedSecretName;
          returnResult =
            (if code deleteResult \<noteq> Succeeded then deleteResult else pluginResult)
      in emit (RequestFinished requestId [VResult returnResult]) s1
    else emit (RequestFinished requestId [VResult pluginResult]) s)"

text \<open>
  The user input flow of \<open>deleteCollectionSecret\<close>, written out twice in the source. The
  authentication plugin is fetched with no test that the map contains it.
\<close>

definition deleteCollectionSecret_userInputFlow ::
  "Env \<Rightarrow> pid_t \<Rightarrow> quint64 \<Rightarrow> Identifier \<Rightarrow> UserInteractionMode \<Rightarrow> QString \<Rightarrow> Metadata \<Rightarrow>
   State \<Rightarrow> Outcome \<times> State" where
  "deleteCollectionSecret_userInputFlow env callerPid requestId identifier userInteractionMode
     interactionServiceAddress collection s =
   (if md_usesDeviceLockKey collection
    then (Return (ResultError CollectionIsLockedError), s)
    else if userInteractionMode = PreventInteraction
    then (Return (ResultError OperationRequiresUserInteraction), s)
    else if md_authenticationPluginName collection \<notin> m_authenticationPlugins (plugins env)
    then (NullPointerDereference, s)
    else
      let ikdRequest = InteractionParameters0
            \<lparr>ip_applicationId := callerApplicationIdOf env callerPid,
             ip_collectionName := id_collectionName identifier,
             ip_secretName := id_name identifier,
             ip_operation := DeleteSecret,
             ip_inputType := AlphaNumericInput,
             ip_echoMode := PasswordEchoOnEdit\<rparr>;
          s1 = emit (BeginUserInputInteraction (md_authenticationPluginName collection)
                       callerPid requestId ikdRequest interactionServiceAddress) s;
          interactionResult =
            beginUserInputInteraction (plugins env) (md_authenticationPluginName collection)
              callerPid requestId ikdRequest interactionServiceAddress
      in if code interactionResult = Failed then (Return interactionResult, s1)
         else
           (Return (ResultOf Pending),
            insertPendingRequest requestId callerPid DeleteCollectionSecretRequest
              [VIdentifier identifier,
               VString (md_storagePluginName collection),
               VString (md_encryptionPluginName collection),
               VUserInteractionMode userInteractionMode,
               VString interactionServiceAddress] s1))"

definition deleteCollectionSecret ::
  "Env \<Rightarrow> pid_t \<Rightarrow> quint64 \<Rightarrow> Identifier \<Rightarrow> UserInteractionMode \<Rightarrow> QString \<Rightarrow> State \<Rightarrow>
   Outcome \<times> State" where
  "deleteCollectionSecret env callerPid requestId identifier userInteractionMode
     interactionServiceAddress s =
   (if id_name identifier = []
    then (Return (ResultError InvalidSecretError), s)
    else if id_collectionName identifier = []
    then (Return (ResultError InvalidCollectionError), s)
    else if compareCaseInsensitive (id_collectionName identifier) ''standalone''
    then (Return (ResultError InvalidCollectionError), s)
    else
      let callerApplicationId = callerApplicationIdOf env callerPid;
          s1 = emit (Bookkeeping (Bk_collectionMetadata (id_collectionName identifier))) s;
          metadataResult =
            fst (bkdb_collectionMetadata (m_bkdb env) (id_collectionName identifier));
          found = snd (bkdb_collectionMetadata (m_bkdb env) (id_collectionName identifier))
      in if code metadataResult \<noteq> Succeeded then (Return metadataResult, s1)
         else case found of
           None \<Rightarrow> (Return (ResultError InvalidCollectionError), s1)
         | Some collection \<Rightarrow>
           (if md_accessControlMode collection = SystemAccessControlMode
            then (Return (ResultError OperationNotSupportedError), s1)
            else if md_accessControlMode collection = OwnerOnlyMode
                    \<and> md_applicationId collection \<noteq> callerApplicationId
            then (Return (ResultError PermissionsError), s1)
            else if md_storagePluginName collection = md_encryptionPluginName collection
                    \<and> md_storagePluginName collection \<notin> m_encryptedStoragePlugins (plugins env)
            then (Return (ResultError InvalidExtensionPluginError), s1)
            else if md_storagePluginName collection \<noteq> md_encryptionPluginName collection
                    \<and> (md_storagePluginName collection = []
                        \<or> md_storagePluginName collection \<notin> m_storagePlugins (plugins env))
            then (Return (ResultError InvalidExtensionPluginError), s1)
            else if md_storagePluginName collection \<noteq> md_encryptionPluginName collection
                    \<and> (md_encryptionPluginName collection = []
                        \<or> md_encryptionPluginName collection
                             \<notin> m_encryptionPlugins (plugins env))
            then (Return (ResultError InvalidExtensionPluginError), s1)
            else if md_storagePluginName collection = md_encryptionPluginName collection
            then
              let s2 = emit (ThreadPool (EncryptedStorage_isCollectionLocked
                         (md_storagePluginName collection) (id_collectionName identifier))) s1;
                  pluginResult = fst (isCollectionLocked (plugins env)
                         (md_storagePluginName collection) (id_collectionName identifier));
                  locked = snd (isCollectionLocked (plugins env)
                         (md_storagePluginName collection) (id_collectionName identifier))
              in if code pluginResult \<noteq> Succeeded then (Return pluginResult, s2)
                 else if locked
                 then deleteCollectionSecret_userInputFlow env callerPid requestId identifier
                        userInteractionMode interactionServiceAddress collection s2
                 else
                   (Return (ResultOf Pending),
                    deleteCollectionSecretWithEncryptionKey env callerPid requestId identifier
                      userInteractionMode interactionServiceAddress (deviceLockKey s2) s2)
            else if m_collectionEncryptionKeys s1 (id_collectionName identifier) = None
            then deleteCollectionSecret_userInputFlow env callerPid requestId identifier
                   userInteractionMode interactionServiceAddress collection s1
            else
              (Return (ResultOf Pending),
               deleteCollectionSecretWithEncryptionKey env callerPid requestId identifier
                 userInteractionMode interactionServiceAddress
                 (valueOf (m_collectionEncryptionKeys s1) (id_collectionName identifier))
                 s1)))"

section \<open>Standalone secrets\<close>

text \<open>
  A standalone secret lives under the reserved collection name \<open>standalone\<close>; the values
  read by \<^verbatim>\<open>secretMetadata\<close> are the row \<open>secretRow\<close> when the secret is found and the
  initial values of the locals otherwise.
\<close>

subsection \<open>setStandaloneDeviceLockSecret\<close>

definition writeStandaloneDeviceLockSecret ::
  "Env \<Rightarrow> pid_t \<Rightarrow> quint64 \<Rightarrow> QString \<Rightarrow> QString \<Rightarrow> QString \<Rightarrow> Secret \<Rightarrow> QString \<Rightarrow>
   QString \<Rightarrow> bool \<Rightarrow> UnlockSemantic \<Rightarrow> AccessControlMode \<Rightarrow> State \<Rightarrow> Result \<times> State"
  where
  "writeStandaloneDeviceLockSecret env callerPid requestId callerApplicationId
     storagePluginName encryptionPluginName secret collectionName hashedSecretName found
     unlockSemantic accessControlMode s =
   (let row = \<lparr>md_applicationId = callerApplicationId,
               md_usesDeviceLockKey = True,
               md_storagePluginName = storagePluginName,
               md_encryptionPluginName = encryptionPluginName,
               md_authenticationPluginName = defaultAuthenticationPlugin env,
               md_unlockSemantic = unlockSemantic,
               md_customLockTimeoutMs = 0,
               md_accessControlMode = accessControlMode\<rparr>;
        s1 = (if found
              then emit (Bookkeeping (Bk_updateSecret collectionName hashedSecretName row)) s
              else emit (Bookkeeping (Bk_insertSecret collectionName hashedSecretName row)) s);
        insertUpdateResult =
          (if found then bkdb_updateSecret (m_bkdb env) collectionName hashedSecretName row
           else bkdb_insertSecret (m_bkdb env) collectionName hashedSecretName row)
    in if code insertUpdateResult \<noteq> Succeeded then (insertUpdateResult, s1)
       else
         (ResultOf Pending,
          emit (Watch
            (if storagePluginName = encryptionPluginName
             then EncryptedStorage_setSecret storagePluginName collectionName
                    hashedSecretName secret (deviceLockKey s1)
             else Storage_encryptAndStoreSecret encryptionPluginName storagePluginName
                    (secret\<lparr>sec_identifier :=
                       (sec_identifier secret)\<lparr>id_collectionName := collectionName\<rparr>\<rparr>)
                    hashedSecretName (deviceLockKey s1))
            (K_writeStandaloneDeviceLockSecret callerPid requestId storagePluginName
               encryptionPluginName collectionName hashedSecretName found)) s1))"

definition writeStandaloneDeviceLockSecretFinalise ::
  "Env \<Rightarrow> pid_t \<Rightarrow> quint64 \<Rightarrow> QString \<Rightarrow> QString \<Rightarrow> QString \<Rightarrow> QString \<Rightarrow> bool \<Rightarrow>
   Result \<Rightarrow> State \<Rightarrow> State" where
  "writeStandaloneDeviceLockSecretFinalise env callerPid requestId storagePluginName
     encryptionPluginName collectionName hashedSecretName found pluginResult s =
   (if code pluginResult = Failed
    then
      (if \<not> found
       then
         let s1 = emit (Bookkeeping (Bk_cleanupDeleteSecret collectionName hashedSecretName
                          pluginResult)) s;
             cleanupResult = bkdb_cleanupDeleteSecret (m_bkdb env) collectionName
                               hashedSecretName pluginResult;
             returnResult =
               (if code cleanupResult \<noteq> Succeeded then cleanupResult else pluginResult)
         in emit (RequestFinished requestId [VResult returnResult]) s1
       else emit (RequestFinished requestId [VResult pluginResult]) s)
    else if storagePluginName \<noteq> encryptionPluginName
    then emit (RequestFinished requestId [VResult pluginResult])
           (s\<lparr>m_standaloneSecretEncryptionKeys :=
                (m_standaloneSecretEncryptionKeys s)(hashedSecretName \<mapsto> deviceLockKey s)\<rparr>)
    else emit (RequestFinished requestId [VResult pluginResult]) s)"

definition setStandaloneDeviceLockSecret ::
  "Env \<Rightarrow> pid_t \<Rightarrow> quint64 \<Rightarrow> QString \<Rightarrow> QString \<Rightarrow> Secret \<Rightarrow> InteractionParameters \<Rightarrow>
   UnlockSemantic \<Rightarrow> AccessControlMode \<Rightarrow> UserInteractionMode \<Rightarrow> QString \<Rightarrow> State \<Rightarrow>
   Result \<times> State" where
  "setStandaloneDeviceLockSecret env callerPid requestId storagePluginName
     encryptionPluginName secret uiParams unlockSemantic accessControlMode
     userInteractionMode interactionServiceAddress s =
   (if id_name (sec_identifier secret) = []
    then (ResultError InvalidSecretError, s)
    else if storagePluginName = encryptionPluginName
            \<and> storagePluginName \<notin> m_encryptedStoragePlugins (plugins env)
    then (ResultError InvalidExtensionPluginError, s)
    else if storagePluginName \<noteq> encryptionPluginName
            \<and> storagePluginName \<notin> m_storagePlugins (plugins env)
    then (ResultError InvalidExtensionPluginError, s)
    else if storagePluginName \<noteq> encryptionPluginName
            \<and> encryptionPluginName \<notin> m_encryptionPlugins (plugins env)
    then (ResultError InvalidExtensionPluginError, s)
    else
      let callerApplicationId = callerApplicationIdOf env callerPid;
          collectionName = ''standalone'';
          hashedSecretName =
            generateHashedSecretName env collectionName (id_name (sec_identifier secret));
          s1 = emit (Bookkeeping (Bk_secretMetadata collectionName hashedSecretName)) s;
          metadataResult =
            fst (bkdb_secretMetadata (m_bkdb env) collectionName hashedSecretName);
          found = (snd (bkdb_secretMetadata (m_bkdb env) collectionName hashedSecretName)
                     \<noteq> None);
          secretRow =
            (case snd (bkdb_secretMetadata (m_bkdb env) collectionName hashedSecretName) of
               None \<Rightarrow> Metadata0 | Some row \<Rightarrow> row)
      in if code metadataResult \<noteq> Succeeded then (metadataResult, s1)
         else if found \<and> md_accessControlMode secretRow = SystemAccessControlMode
         then (ResultError OperationNotSupportedError, s1)
         else if found \<and> md_accessControlMode secretRow = OwnerOnlyMode
                 \<and> md_applicationId secretRow \<noteq> callerApplicationId
         then (ResultError PermissionsError, s1)
         else if found \<and> md_usesDeviceLockKey secretRow = False
         then (ResultError OperationNotSupportedError, s1)
         else if found
                 \<and> \<not> compareCaseInsensitive (md_storagePluginName secretRow) storagePluginName
         then (ResultError OperationNotSupportedError, s1)
         else if \<not> isValid env uiParams
         then writeStandaloneDeviceLockSecret env callerPid requestId callerApplicationId
                storagePluginName encryptionPluginName secret collectionName hashedSecretName
                found unlockSemantic accessControlMode s1
         else if userInputPluginOf env uiParams \<notin> m_authenticationPlugins (plugins env)
         then (ResultError InvalidExtensionPluginError, s1)
         else
           let modifiedUiParams = uiParams
                 \<lparr>ip_applicationId := callerApplicationId,
                  ip_collectionName := id_collectionName (sec_identifier secret),
                  ip_secretName := id_name (sec_identifier secret),
                  ip_operation := RequestUserData\<rparr>;
               s2 = emit (BeginUserInputInteraction (userInputPluginOf env uiParams)
                      callerPid requestId modifiedUiParams interactionServiceAddress) s1;
               authenticationResult =
                 beginUserInputInteraction (plugins env) (userInputPluginOf env uiParams)
                   callerPid requestId modifiedUiParams interactionServiceAddress
           in if code authenticationResult = Failed then (authenticationResult, s2)
              else
                (ResultOf Pending,
                 insertPendingRequest requestId callerPid
                   SetStandaloneDeviceLockUserInputSecretRequest
                   [VSecret secret, VString callerApplicationId, VString storagePluginName,
                    VString encryptionPluginName, VString collectionName,
                    VString hashedSecretName, VBool found, VUnlockSemantic unlockSemantic,
                    VAccessControlMode accessControlMode] s2))"

subsection \<open>setStandaloneCustomLockSecret\<close>

definition setStandaloneCustomLockSecretGetAuthenticationCode ::
  "Env \<Rightarrow> pid_t \<Rightarrow> quint64 \<Rightarrow> QString \<Rightarrow> QString \<Rightarrow> QString \<Rightarrow> QString \<Rightarrow> Secret \<Rightarrow>
   UnlockSemantic \<Rightarrow> int \<Rightarrow> AccessControlMode \<Rightarrow> UserInteractionMode \<Rightarrow> QString \<Rightarrow>
   State \<Rightarrow> Outcome \<times> State" where
  "setStandaloneCustomLockSecretGetAuthenticationCode env callerPid requestId
     callerApplicationId storagePluginName encryptionPluginName authenticationPluginName
     secret unlockSemantic customLockTimeoutMs accessControlMode userInteractionMode
     interactionServiceAddress s =
   (if authenticationPluginName \<notin> m_authenticationPlugins (plugins env)
    then (NullPointerDereference, s)
    else
      let ikdRequest = InteractionParameters0
            \<lparr>ip_applicationId := callerApplicationId,
             ip_collectionName := [],
             ip_secretName := id_name (sec_identifier secret),
             ip_operation := StoreSecret,
             ip_inputType := AlphaNumericInput,
             ip_echoMode := PasswordEchoOnEdit\<rparr>;
          s1 = emit (BeginUserInputInteraction authenticationPluginName callerPid
                       requestId ikdRequest interactionServiceAddress) s;
          interactionResult =
            beginUserInputInteraction (plugins env) authenticationPluginName callerPid
              requestId ikdRequest interactionServiceAddress
      in if code interactionResult = Failed then (Return interactionResult, s1)
         else
           (Return (ResultOf Pending),
            insertPendingRequest requestId callerPid SetStandaloneCustomLockSecretRequest
              [VString storagePluginName, VString encryptionPluginName,
               VString authenticationPluginName, VSecret secret,
               VUnlockSemantic unlockSemantic, VInt customLockTimeoutMs,
               VAccessControlMode accessControlMode,
               VUserInteractionMode userInteractionMode,
               VString interactionServiceAddress] s1))"

definition setStandaloneCustomLockSecret ::
  "Env \<Rightarrow> pid_t \<Rightarrow> quint64 \<Rightarrow> QString \<Rightarrow> QString \<Rightarrow> QString \<Rightarrow> Secret \<Rightarrow>
   InteractionParameters \<Rightarrow> UnlockSemantic \<Rightarrow> int \<Rightarrow> AccessControlMode \<Rightarrow>
   UserInteractionMode \<Rightarrow> QString \<Rightarrow> State \<Rightarrow> Outcome \<times> State" where
  "setStandaloneCustomLockSecret env callerPid requestId storagePluginName
     encryptionPluginName authenticationPluginName secret uiParams unlockSemantic
     customLockTimeoutMs accessControlMode userInteractionMode interactionServiceAddress s =
   (if id_name (sec_identifier secret) = []
    then (Return (ResultError InvalidSecretError), s)
    else if storagePluginName = encryptionPluginName
            \<and> storagePluginName \<notin> m_encryptedStoragePlugins (plugins env)
    then (Return (ResultError InvalidExtensionPluginError), s)
    else if storagePluginName \<noteq> encryptionPluginName
            \<and> storagePluginName \<notin> m_storagePlugins (plugins env)
    then (Return (ResultError InvalidExtensionPluginError), s)
    else if storagePluginName \<noteq> encryptionPluginName
            \<and> encryptionPluginName \<notin> m_encryptionPlugins (plugins env)
    then (Return (ResultError InvalidExtensionPluginError), s)
    else
      let callerApplicationId = callerApplicationIdOf env callerPid;
          collectionName = ''standalone'';
          hashedSecretName =
            generateHashedSecretName env collectionName (id_name (sec_identifier secret));
          s1 = emit (Bookkeeping (Bk_secretMetadata collectionName hashedSecretName)) s;
          metadataResult =
            fst (bkdb_secretMetadata (m_bkdb env) collectionName hashedSecretName);
          found = (snd (bkdb_secretMetadata (m_bkdb env) collectionName hashedSecretName)
                     \<noteq> None);
          secretRow =
            (case snd (bkdb_secretMetadata (m_bkdb env) collectionName hashedSecretName) of
               None \<Rightarrow> Metadata0 | Some row \<Rightarrow> row)
      in if code metadataResult \<noteq> Succeeded then (Return metadataResult, s1)
         else if found \<and> md_accessControlMode secretRow = SystemAccessControlMode
         then (Return (ResultError OperationNotSupportedError), s1)
         else if found \<and> md_accessControlMode secretRow = OwnerOnlyMode
                 \<and> md_applicationId secretRow \<noteq> callerApplicationId
         then (Return (ResultError PermissionsError), s1)
         else if found \<and> md_usesDeviceLockKey secretRow = True
         then (Return (ResultError OperationNotSupportedError), s1)
         else if found
                 \<and> \<not> compareCaseInsensitive (md_storagePluginName secretRow) storagePluginName
         then (Return (ResultError OperationNotSupportedError), s1)
         else if authenticationPluginName \<notin> m_authenticationPlugins (plugins env)
         then (NullPointerDereference, s1)
         else if authenticationTypes_ApplicationSpecific (plugins env) authenticationPluginName
                 \<and> (userInteractionMode \<noteq> ApplicationInteraction
                     \<or> interactionServiceAddress = [])
         then (Return (ResultError OperationRequiresApplicationUserInteraction), s1)
         else if userInteractionMode = PreventInteraction
         then (Return (ResultError OperationRequiresUserInteraction), s1)
         else if \<not> isValid env uiParams
         then setStandaloneCustomLockSecretGetAuthenticationCode env callerPid requestId
                callerApplicationId storagePluginName encryptionPluginName
                authenticationPluginName secret unlockSemantic customLockTimeoutMs
                accessControlMode userInteractionMode interactionServiceAddress s1
         else if userInputPluginOf env uiParams \<notin> m_authenticationPlugins (plugins env)
         then (Return (ResultError InvalidExtensionPluginError), s1)
         else
           let modifiedUiParams = uiParams
                 \<lparr>ip_applicationId := callerApplicationId,
                  ip_collectionName := id_collectionName (sec_identifier secret),
                  ip_secretName := id_name (sec_identifier secret),
                  ip_operation := RequestUserData\<rparr>;
               s2 = emit (BeginUserInputInteraction (userInputPluginOf env uiParams)
                      callerPid requestId modifiedUiParams interactionServiceAddress) s1;
               authenticationResult =
                 beginUserInputInteraction (plugins env) (userInputPluginOf env uiParams)
                   callerPid requestId modifiedUiParams interactionServiceAddress
           in if code authenticationResult = Failed then (Return authenticationResult, s2)
              else
                (Return (ResultOf Pending),
                 insertPendingRequest requestId callerPid
                   SetStandaloneCustomLockUserInputSecretRequest
                   [VSecret secret, VString callerApplicationId, VString storagePluginName,
                    VString encryptionPluginName, VString authenticationPluginName,
                    VUnlockSemantic unlockSemantic, VInt customLockTimeoutMs,
                    VAccessControlMode accessControlMode,
                    VUserInteractionMode userInteractionMode,
                    VString interactionServiceAddress] s2))"

subsection \<open>getStandaloneSecret\<close>

definition getStandaloneSecretWithEncryptionKey ::
  "Env \<Rightarrow> pid_t \<Rightarrow> quint64 \<Rightarrow> Identifier \<Rightarrow> UserInteractionMode \<Rightarrow> QString \<Rightarrow> QString \<Rightarrow>
   QString \<Rightarrow> UnlockSemantic \<Rightarrow> int \<Rightarrow> QByteArray \<Rightarrow> State \<Rightarrow> State" where
  "getStandaloneSecretWithEncryptionKey env callerPid requestId identifier userInteractionMode
     interactionServiceAddress storagePluginName encryptionPluginName secretUnlockSemantic
     secretCustomLockTimeoutMs encryptionKey s =
   (let s1 = (if secretUnlockSemantic = CustomLockTimoutRelock
                 \<and> map_of (m_standaloneSecretLockTimers s) (id_name identifier) = None
              then emit (TimerStart (newTimer secretCustomLockTimeoutMs s))
                     (s\<lparr>m_standaloneSecretLockTimers :=
                          AList.update (id_name identifier)
                            (newTimer secretCustomLockTimeoutMs s)
                            (m_standaloneSecretLockTimers s),
                        timersCreated := timersCreated s + 1\<rparr>)
              else s);
        collectionName = ''standalone'';
        hashedSecretName = generateHashedSecretName env collectionName (id_name identifier)
    in if storagePluginName = encryptionPluginName
       then emit (Watch
              (EncryptedStorage_accessSecret encryptionPluginName collectionName
                 hashedSecretName encryptionKey)
              (K_getStandaloneSecret_accessSecret requestId collectionName)) s1
       else
         let s2 = (if m_standaloneSecretEncryptionKeys s1 hashedSecretName = None
                   then s1\<lparr>m_standaloneSecretEncryptionKeys :=
                             (m_standaloneSecretEncryptionKeys s1)
                               (hashedSecretName \<mapsto> encryptionKey)\<rparr>
                   else s1)
         in emit (Watch
              (Storage_getAndDecryptSecret encryptionPluginName storagePluginName
                 \<lparr>id_name = id_name identifier, id_collectionName = collectionName\<rparr>
                 hashedSecretName
                 (valueOf (m_standaloneSecretEncryptionKeys s2) hashedSecretName))
              (K_getStandaloneSecret_getAndDecryptSecret requestId)) s2)"

text \<open>
  The slots for \<open>K_getStandaloneSecret_accessSecret\<close> (the secret is rebuilt from the
  name, data and filter data the plugin returns) and
  \<open>K_getStandaloneSecret_getAndDecryptSecret\<close> (the collection name is cleared).
\<close>

definition getStandaloneSecret_accessSecret_finished ::
  "quint64 \<Rightarrow> QString \<Rightarrow> Result \<Rightarrow> QString \<Rightarrow> QByteArray \<Rightarrow> (QString \<times> QString) list \<Rightarrow>
   State \<Rightarrow> State" where
  "getStandaloneSecret_accessSecret_finished requestId collectionName sdrResult sdrSecretName
     sdrSecretData sdrSecretFilterData s =
     emit (RequestFinished requestId
       [VResult sdrResult,
        VSecret \<lparr>sec_identifier =
                   \<lparr>id_name = sdrSecretName, id_collectionName = collectionName\<rparr>,
                 sec_data = sdrSecretData, sec_filterData = sdrSecretFilterData\<rparr>]) s"

definition getStandaloneSecret_getAndDecryptSecret_finished ::
  "quint64 \<Rightarrow> Result \<Rightarrow> Secret \<Rightarrow> State \<Rightarrow> State" where
  "getStandaloneSecret_getAndDecryptSecret_finished requestId srResult srSecret s =
     emit (RequestFinished requestId
       [VResult srResult,
        VSecret (srSecret\<lparr>sec_identifier :=
                   (sec_identifier srSecret)\<lparr>id_collectionName := []\<rparr>\<rparr>)]) s"

definition getStandaloneSecret ::
  "Env \<Rightarrow> pid_t \<Rightarrow> quint64 \<Rightarrow> Identifier \<Rightarrow> UserInteractionMode \<Rightarrow> QString \<Rightarrow> State \<Rightarrow>
   Outcome \<times> State" where
  "getStandaloneSecret env callerPid requestId identifier userInteractionMode
     interactionServiceAddress s =
   (if id_name identifier = []
    then (Return (ResultError InvalidSecretError), s)
    else if id_collectionName identifier \<noteq> []
    then (Return (ResultError InvalidCollectionError), s)
    else
      let callerApplicationId = callerApplicationIdOf env callerPid;
          collectionName = ''standalone'';
          hashedSecretName = generateHashedSecretName env collectionName (id_name identifier);
          s1 = emit (Bookkeeping (Bk_secretMetadata collectionName hashedSecretName)) s;
          metadataResult =
            fst (bkdb_secretMetadata (m_bkdb env) collectionName hashedSecretName);
          found = snd (bkdb_secretMetadata (m_bkdb env) collectionName hashedSecretName)
      in if code metadataResult \<noteq> Succeeded then (Return metadataResult, s1)
         else case found of
           None \<Rightarrow> (Return (ResultError InvalidSecretError), s1)
         | Some secretRow \<Rightarrow>
           (if md_storagePluginName secretRow = md_encryptionPluginName secretRow
               \<and> md_storagePluginName secretRow \<notin> m_encryptedStoragePlugins (plugins env)
            then (Return (ResultError InvalidExtensionPluginError), s1)
            else if md_storagePluginName secretRow \<noteq> md_encryptionPluginName secretRow
                    \<and> md_storagePluginName secretRow \<notin> m_storagePlugins (plugins env)
            then (Return (ResultError InvalidExtensionPluginError), s1)
            else if md_storagePluginName secretRow \<noteq> md_encryptionPluginName secretRow
                    \<and> md_encryptionPluginName secretRow \<notin> m_encryptionPlugins (plugins env)
            then (Return (ResultError InvalidExtensionPluginError), s1)
            else if md_accessControlMode secretRow = SystemAccessControlMode
            then (Return (ResultError OperationNotSupportedError), s1)
            else if md_accessControlMode secretRow = OwnerOnlyMode
                    \<and> md_applicationId secretRow \<noteq> callerApplicationId
            then (Return (ResultError PermissionsError), s1)
            else if md_authenticationPluginName secretRow
                      \<notin> m_authenticationPlugins (plugins env)
            then (NullPointerDereference, s1)
            else if authenticationTypes_ApplicationSpecific (plugins env)
                      (md_authenticationPluginName secretRow)
                    \<and> (userInteractionMode \<noteq> ApplicationInteraction
                        \<or> interactionServiceAddress = [])
            then (Return (ResultError OperationRequiresApplicationUserInteraction), s1)
            else if m_standaloneSecretEncryptionKeys s1 hashedSecretName \<noteq> None
            then (Return (ResultOf Pending),
                  getStandaloneSecretWithEncryptionKey env callerPid requestId identifier
                    userInteractionMode interactionServiceAddress
                    (md_storagePluginName secretRow) (md_encryptionPluginName secretRow)
                    (md_unlockSemantic secretRow) (md_customLockTimeoutMs secretRow)
                    (valueOf (m_standaloneSecretEncryptionKeys s1) hashedSecretName) s1)
            else if md_usesDeviceLockKey secretRow
            then (Return (ResultError CollectionIsLockedError), s1)
            else if userInteractionMode = PreventInteraction
            then (Return (ResultError OperationRequiresUserInteraction), s1)
            else
              let ikdRequest = InteractionParameters0
                    \<lparr>ip_applicationId := callerApplicationId,
                     ip_collectionName := [],
                     ip_secretName := id_name identifier,
                     ip_operation := ReadSecret,
                     ip_inputType := AlphaNumericInput,
                     ip_echoMode := PasswordEchoOnEdit\<rparr>;
                  s2 = emit (BeginUserInputInteraction (md_authenticationPluginName secretRow)
                         callerPid requestId ikdRequest interactionServiceAddress) s1;
                  interactionResult =
                    beginUserInputInteraction (plugins env)
                      (md_authenticationPluginName secretRow) callerPid requestId ikdRequest
                      interactionServiceAddress
              in if code interactionResult = Failed then (Return interactionResult, s2)
                 else
                   (Return (ResultOf Pending),
                    insertPendingRequest requestId callerPid GetStandaloneSecretRequest
                      [VIdentifier identifier, VUserInteractionMode userInteractionMode,
                       VString interactionServiceAddress,
                       VString (md_storagePluginName secretRow),
                       VString (md_encryptionPluginName secretRow),
                       VUnlockSemantic (md_unlockSemantic secretRow),
                       VInt (md_customLockTimeoutMs secretRow)] s2)))"

subsection \<open>deleteStandaloneSecret\<close>

definition deleteStandaloneSecret ::
  "Env \<Rightarrow> pid_t \<Rightarrow> quint64 \<Rightarrow> Identifier \<Rightarrow> UserInteractionMode \<Rightarrow> State \<Rightarrow> Result \<times> State"
  where
  "deleteStandaloneSecret env callerPid requestId identifier userInteractionMode s =
   (let callerApplicationId = callerApplicationIdOf env callerPid;
        collectionName = ''standalone'';
        hashedSecretName = generateHashedSecretName env collectionName (id_name identifier);
        s1 = emit (Bookkeeping (Bk_secretMetadata collectionName hashedSecretName)) s;
        metadataResult =
          fst (bkdb_secretMetadata (m_bkdb env) collectionName hashedSecretName);
        found = snd (bkdb_secretMetadata (m_bkdb env) collectionName hashedSecretName)
    in if code metadataResult \<noteq> Succeeded then (metadataResult, s1)
       else case found of
         None \<Rightarrow> (ResultOf Succeeded, s1)
       | Some secretRow \<Rightarrow>
         (if md_accessControlMode secretRow = SystemAccessControlMode
          then (ResultError OperationNotSupportedError, s1)
          else if md_accessControlMode secretRow = OwnerOnlyMode
                  \<and> md_applicationId secretRow \<noteq> callerApplicationId
          then (ResultError PermissionsError, s1)
          else if md_storagePluginName secretRow = md_encryptionPluginName secretRow
                  \<and> md_storagePluginName secretRow \<notin> m_encryptedStoragePlugins (plugins env)
          then (ResultError InvalidExtensionPluginError, s1)
          else if md_storagePluginName secretRow \<noteq> md_encryptionPluginName secretRow
                  \<and> md_storagePluginName secretRow \<notin> m_storagePlugins (plugins env)
          then (ResultError InvalidExtensionPluginError, s1)
          else if md_storagePluginName secretRow \<noteq> md_encryptionPluginName secretRow
                  \<and> md_encryptionPluginName secretRow \<notin> m_encryptionPlugins (plugins env)
          then (ResultError InvalidExtensionPluginError, s1)
          else
            (ResultOf Pending,
             emit (Watch
               (if md_storagePluginName secretRow = md_encryptionPluginName secretRow
                then EncryptedStorage_unlockAndRemoveSecret (md_encryptionPluginName secretRow)
                       collectionName hashedSecretName (md_usesDeviceLockKey secretRow)
                       (deviceLockKey s1)
                else Storage_removeSecret (md_storagePluginName secretRow) collectionName
                       hashedSecretName)
               (K_deleteStandaloneSecret requestId (md_storagePluginName secretRow)
                  (md_encryptionPluginName secretRow) collectionName hashedSecretName)) s1)))"

text \<open>The slot for \<open>K_deleteStandaloneSecret\<close>.\<close>

definition deleteStandaloneSecret_finished ::
  "Env \<Rightarrow> quint64 \<Rightarrow> QString \<Rightarrow> QString \<Rightarrow> QString \<Rightarrow> QString \<Rightarrow> Result \<Rightarrow> State \<Rightarrow> State"
  where
  "deleteStandaloneSecret_finished env requestId secretStoragePluginName
     secretEncryptionPluginName collectionName hashedSecretName watcherResult s =
   (if code watcherResult = Succeeded
    then
      let s1 = (if secretStoragePluginName \<noteq> secretEncryptionPluginName
                then (removeStandaloneSecretEncryptionKey hashedSecretName s)
                       \<lparr>m_standaloneSecretLockTimers :=
                          AList.delete hashedSecretName (m_standaloneSecretLockTimers s)\<rparr>
                else s);
          s2 = emit (Bookkeeping (Bk_deleteSecret collectionName hashedSecretName)) s1;
          deleteResult = bkdb_deleteSecret (m_bkdb env) collectionName hashedSecretName;
          pluginResult =
            (if code deleteResult \<noteq> Succeeded then deleteResult else watcherResult)
      in emit (RequestFinished requestId [VResult pluginResult]) s2
    else emit (RequestFinished requestId [VResult watcherResult]) s)"

section \<open>Relock timers\<close>

text \<open>
  The slots of the timers' \<^verbatim>\<open>timeout\<close> signal. \<open>timer\<close> is the sender. The loop stops at
  the first entry of the map whose timer is the sender. The source walks the map in the
  order of its keys and the model in the order of insertion; a timer is the value of at
  most one key, so both find the same entry.
\<close>

fun keyOfTimer :: "QTimer \<Rightarrow> (QString \<times> QTimer) list \<Rightarrow> QString option" where
  "keyOfTimer timer [] = None"
| "keyOfTimer timer (entry # entries) =
     (if snd entry = timer then Some (fst entry) else keyOfTimer timer entries)"

definition timeoutRelockCollection :: "QTimer \<Rightarrow> State \<Rightarrow> State" where
  "timeoutRelockCollection timer s =
     (case keyOfTimer timer (m_collectionLockTimers s) of
        None \<Rightarrow> s
      | Some key \<Rightarrow>
          (removeCollectionEncryptionKey key s)
            \<lparr>m_collectionLockTimers := AList.delete key (m_collectionLockTimers s)\<rparr>)"

definition timeoutRelockSecret :: "QTimer \<Rightarrow> State \<Rightarrow> State" where
  "timeoutRelockSecret timer s =
     (case keyOfTimer timer (m_standaloneSecretLockTimers s) of
        None \<Rightarrow> s
      | Some key \<Rightarrow>
          (removeStandaloneSecretEncryptionKey key s)
            \<lparr>m_standaloneSecretLockTimers :=
               AList.delete key (m_standaloneSecretLockTimers s)\<rparr>)"

section \<open>Lock codes\<close>

text \<open>
  Modelled from the spec: \<^verbatim>\<open>SecretsRequestQueue::initialise\<close> and
  \<^verbatim>\<open>SecretsRequestQueue::testLockCode\<close> belong to the request queue, which is not under
  src/. Sections 4.2 and 9: the process holds a bookkeeping lock key and a device-lock key;
  the old passphrase is verified against the current key, and key material is derived from
  a lock code. \<open>initialise\<close> derives both keys from the lock code (\<open>deriveKeyData\<close>, a
  parameter) and installs them, or fails and leaves the keys as they are; \<open>testLockCode\<close>
  holds when the keys derived from the lock code are the current ones.
\<close>

definition initialise :: "Env \<Rightarrow> QByteArray \<Rightarrow> State \<Rightarrow> bool \<times> State" where
  "initialise env lockCode s =
     (case deriveKeyData env lockCode of
        None \<Rightarrow> (False, emit (RequestQueue (Q_initialise lockCode)) s)
      | Some keys \<Rightarrow>
          (True, emit (RequestQueue (Q_initialise lockCode))
                   (s\<lparr>bkdbLockKey := fst keys, deviceLockKey := snd keys\<rparr>)))"

definition testLockCode :: "Env \<Rightarrow> QByteArray \<Rightarrow> State \<Rightarrow> bool" where
  "testLockCode env lockCode s =
     (deriveKeyData env lockCode = Some (bkdbLockKey s, deviceLockKey s))"

subsection \<open>modifyLockCodeWithLockCodes\<close>

text \<open>
  The two sweeps of the master lock change. Each job is run and waited for; its result is
  only logged. \<^verbatim>\<open>QMap::value\<close> of a plugin that is not installed is a null pointer, and the
  entry is skipped.
\<close>

fun reencryptDeviceLockedCollections ::
  "Env \<Rightarrow> QByteArray \<Rightarrow> QString list \<Rightarrow> State \<Rightarrow> State" where
  "reencryptDeviceLockedCollections env oldDeviceLockKey [] s = s"
| "reencryptDeviceLockedCollections env oldDeviceLockKey (cname # collectionNames) s =
     (let s1 = emit (Bookkeeping (Bk_collectionMetadata cname)) s;
          metadataResult = fst (bkdb_collectionMetadata (m_bkdb env) cname);
          row = (case snd (bkdb_collectionMetadata (m_bkdb env) cname) of
                   None \<Rightarrow> Metadata0 | Some found \<Rightarrow> found)
      in reencryptDeviceLockedCollections env oldDeviceLockKey collectionNames
           (if code metadataResult \<noteq> Succeeded then s1
            else if \<not> md_usesDeviceLockKey row then s1
            else if md_storagePluginName row = md_encryptionPluginName row
            then (if md_storagePluginName row \<notin> m_encryptedStoragePlugins (plugins env)
                  then s1
                  else emit (ThreadPool (EncryptedStorage_unlockCollectionAndReencrypt
                         (md_storagePluginName row) cname oldDeviceLockKey
                         (deviceLockKey s1) True)) s1)
            else if md_encryptionPluginName row \<notin> m_encryptionPlugins (plugins env)
            then s1
            else if md_storagePluginName row \<notin> m_storagePlugins (plugins env)
            then s1
            else emit (ThreadPool (Storage_reencryptSecrets (md_storagePluginName row)
                   cname [] oldDeviceLockKey (deviceLockKey s1)
                   (md_encryptionPluginName row))) s1))"

fun reencryptDeviceLockedStandaloneSecrets ::
  "Env \<Rightarrow> QByteArray \<Rightarrow> QString list \<Rightarrow> State \<Rightarrow> State" where
  "reencryptDeviceLockedStandaloneSecrets env oldDeviceLockKey [] s = s"
| "reencryptDeviceLockedStandaloneSecrets env oldDeviceLockKey (hsn # hashedSecretNames) s =
     (let s1 = emit (Bookkeeping (Bk_secretMetadata ''standalone'' hsn)) s;
          secretMetadataResult = fst (bkdb_secretMetadata (m_bkdb env) ''standalone'' hsn);
          row = (case snd (bkdb_secretMetadata (m_bkdb env) ''standalone'' hsn) of
                   None \<Rightarrow> Metadata0 | Some found \<Rightarrow> found)
      in reencryptDeviceLockedStandaloneSecrets env oldDeviceLockKey hashedSecretNames
           (if code secretMetadataResult \<noteq> Succeeded then s1
            else if \<not> md_usesDeviceLockKey row then s1
            else if md_encryptionPluginName row \<notin> m_encryptionPlugins (plugins env)
            then s1
            else if md_storagePluginName row \<notin> m_storagePlugins (plugins env)
            then s1
            else emit (ThreadPool (Storage_reencryptSecrets (md_storagePluginName row)
                   [] [hsn] oldDeviceLockKey (deviceLockKey s1)
                   (md_encryptionPluginName row))) s1))"

definition modifyLockCodeWithLockCodes ::
  "Env \<Rightarrow> pid_t \<Rightarrow> quint64 \<Rightarrow> LockCodeTargetType \<Rightarrow> QString \<Rightarrow> InteractionParameters \<Rightarrow>
   UserInteractionMode \<Rightarrow> QString \<Rightarrow> QByteArray \<Rightarrow> QByteArray \<Rightarrow> State \<Rightarrow> Result \<times> State"
  where
  "modifyLockCodeWithLockCodes env callerPid requestId lockCodeTargetType lockCodeTarget
     interactionParams userInteractionMode interactionServiceAddress oldLockCode
     newLockCode s =
   (if lockCodeTargetType = ExtensionPlugin
    then
      let s1 = emit (ThreadPool (modifyLockSpecificPlugin lockCodeTarget oldLockCode
                       newLockCode)) s;
          fr = run_modifyLockSpecificPlugin (plugins env) lockCodeTarget oldLockCode
                 newLockCode
      in if fst fr then (snd fr, s1)
         else if lockCodeTarget \<in> m_authenticationPlugins (plugins env)
         then (if \<not> supportsLocking (plugins env) lockCodeTarget
               then (ResultError OperationNotSupportedError, s1)
               else if \<not> auth_setLockCode (plugins env) lockCodeTarget oldLockCode newLockCode
               then (ResultError UnknownError,
                     emit (AuthenticationSetLockCode lockCodeTarget oldLockCode newLockCode) s1)
               else (ResultOf Succeeded,
                     emit (AuthenticationSetLockCode lockCodeTarget oldLockCode newLockCode) s1))
         else (setLockCodeCryptoPlugin env lockCodeTarget oldLockCode newLockCode,
               emit (RequestQueue (Q_setLockCodeCryptoPlugin lockCodeTarget oldLockCode
                       newLockCode)) s1)
    else
      let s1 = emit (RequestQueue (Q_testLockCode oldLockCode)) s
      in if \<not> testLockCode env oldLockCode s1
         then (ResultError SecretsDaemonLockedError, s1)
         else
           let oldBkdbLockKey = bkdbLockKey s1;
               oldDeviceLockKey = deviceLockKey s1;
               s2 = emit (Bookkeeping Bk_isInitialised) s1;
               initialisedOld =
                 (if \<not> bkdb_isInitialised (m_bkdb env) then initialise env oldLockCode s2
                  else (True, s2))
           in if \<not> fst initialisedOld then (ResultError UnknownError, snd initialisedOld)
              else
                let initialisedNew = initialise env newLockCode (snd initialisedOld);
                    s3 = snd initialisedNew
                in if \<not> fst initialisedNew then (ResultError UnknownError, s3)
                   else
                     let s4 = emit (Bookkeeping (Bk_reencrypt oldBkdbLockKey (bkdbLockKey s3)))
                                s3;
                         reencryptResult =
                           bkdb_reencrypt (m_bkdb env) oldBkdbLockKey (bkdbLockKey s3)
                     in if code reencryptResult \<noteq> Succeeded
                        then (reencryptResult, snd (initialise env oldLockCode s4))
                        else
                          let s5 = emit (RequestQueue (Q_setNoLockCode (newLockCode = [])))
                                     (s4\<lparr>noLockCode := (newLockCode = [])\<rparr>);
                              s6 = emit (Bookkeeping Bk_collectionNames) s5;
                              cnamesResult = fst (bkdb_collectionNames (m_bkdb env));
                              s7 = (if code cnamesResult = Succeeded
                                    then reencryptDeviceLockedCollections env oldDeviceLockKey
                                           (snd (bkdb_collectionNames (m_bkdb env))) s6
                                    else s6);
                              s8 = emit (Bookkeeping (Bk_hashedSecretNames ''standalone'')) s7;
                              hsnResult =
                                fst (bkdb_hashedSecretNames (m_bkdb env) ''standalone'');
                              s9 = (if code hsnResult \<noteq> Succeeded then s8
                                    else reencryptDeviceLockedStandaloneSecrets env
                                           oldDeviceLockKey
                                           (snd (bkdb_hashedSecretNames (m_bkdb env)
                                                   ''standalone'')) s8)
                          in (reencryptResult,
                              emit (ThreadPool (modifyMasterLockPlugins oldDeviceLockKey
                                      (deviceLockKey s9))) s9))"

subsection \<open>forgetLockCode\<close>

text \<open>
  The literal \<^verbatim>\<open>QByteArray("ffffffffffffffff" "ffffffffffffffff" "ffffffffffffffff"
  "ffffffffffffffff")\<close> that \<open>forgetLockCode\<close> initialises the key data with.
\<close>

definition forgetLockCodeSentinel :: QByteArray where
  "forgetLockCodeSentinel =
     map of_char (''ffffffffffffffff'' @ ''ffffffffffffffff'' @ ''ffffffffffffffff''
                  @ ''ffffffffffffffff'')"

definition forgetLockCode ::
  "Env \<Rightarrow> pid_t \<Rightarrow> quint64 \<Rightarrow> LockCodeTargetType \<Rightarrow> QString \<Rightarrow> InteractionParameters \<Rightarrow>
   UserInteractionMode \<Rightarrow> QString \<Rightarrow> State \<Rightarrow> Result \<times> State" where
  "forgetLockCode env callerPid requestId lockCodeTargetType lockCodeTarget interactionParams
     userInteractionMode interactionServiceAddress s =
   (let applicationIsPlatformApplication =
          applicationIsPlatformApplication (m_appPermissions env) callerPid
    in if lockCodeTargetType = StandaloneSecret
       then (ResultError OperationNotSupportedError, s)
       else if lockCodeTargetType = Collection
       then (ResultError OperationNotSupportedError, s)
       else if lockCodeTargetType = ExtensionPlugin
       then
         (if \<not> applicationIsPlatformApplication
          then (ResultError PermissionsError, s)
          else
            let s1 = emit (ThreadPool (lockSpecificPlugin lockCodeTarget)) s;
                fr = run_lockSpecificPlugin (plugins env) lockCodeTarget
            in if fst fr then (snd fr, s1)
               else if lockCodeTarget \<in> m_authenticationPlugins (plugins env)
               then (if \<not> supportsLocking (plugins env) lockCodeTarget
                     then (ResultError OperationNotSupportedError, s1)
                     else if \<not> auth_lock (plugins env) lockCodeTarget
                     then (ResultError UnknownError,
                           emit (AuthenticationLock lockCodeTarget) s1)
                     else (ResultOf Succeeded, emit (AuthenticationLock lockCodeTarget) s1))
               else (lockCryptoPlugin env lockCodeTarget,
                     emit (RequestQueue (Q_lockCryptoPlugin lockCodeTarget)) s1))
       else
         (if \<not> applicationIsPlatformApplication
          then (ResultError PermissionsError, s)
          else if lockCodeTarget \<noteq> []
          then (ResultError OperationNotSupportedError, s)
          else
            let initialised = initialise env forgetLockCodeSentinel s
            in if \<not> fst initialised then (ResultError UnknownError, snd initialised)
               else
                 let s1 = emit (Bookkeeping Bk_lock) (snd initialised);
                     lockResult = bkdb_lock (m_bkdb env)
                 in (lockResult, emit (ThreadPool masterLockPlugins) s1)))"

section \<open>Example configuration\<close>

text \<open>
  The plugins of the specification's scenarios: a storage plugin \<open>store\<close>, an encryption
  plugin \<open>enc\<close>, an encrypted storage plugin \<open>encstore\<close> and an authentication plugin
  \<open>auth\<close>. Application \<open>appA\<close> runs as process 1, \<open>appB\<close> as process 2, and process 0 is
  the platform application. The bookkeeping database holds the device-lock collection
  \<open>notes\<close> (fused plugin) and the custom-lock collections \<open>wallet\<close> and \<open>priv\<close> (split
  plugins), all owned by \<open>appA\<close>, and every call to it succeeds.
\<close>

definition exampleRow :: "bool \<Rightarrow> QString \<Rightarrow> QString \<Rightarrow> UnlockSemantic \<Rightarrow> Metadata" where
  "exampleRow usesDeviceLockKey storagePluginName encryptionPluginName unlockSemantic =
     \<lparr>md_applicationId = ''appA'', md_usesDeviceLockKey = usesDeviceLockKey,
      md_storagePluginName = storagePluginName,
      md_encryptionPluginName = encryptionPluginName,
      md_authenticationPluginName = ''auth'', md_unlockSemantic = unlockSemantic,
      md_customLockTimeoutMs = 500, md_accessControlMode = OwnerOnlyMode\<rparr>"

definition exampleCollections :: "QString \<Rightarrow> Metadata option" where
  "exampleCollections collectionName =
     (if collectionName = ''notes''
      then Some (exampleRow True ''encstore'' ''encstore'' DeviceLockKeepUnlocked)
      else if collectionName = ''wallet''
      then Some (exampleRow False ''store'' ''enc'' CustomLockTimoutRelock)
      else if collectionName = ''priv''
      then Some (exampleRow False ''store'' ''enc'' CustomLockKeepUnlocked)
      else None)"

definition exampleBkdb :: BookkeepingDatabase where
  "exampleBkdb =
     \<lparr>bkdb_collectionNames = (ResultOf Succeeded, [''notes'', ''wallet'', ''priv'']),
      bkdb_collectionAlreadyExists =
        (\<lambda>collectionName. (ResultOf Succeeded, exampleCollections collectionName \<noteq> None)),
      bkdb_collectionMetadata =
        (\<lambda>collectionName. (ResultOf Succeeded, exampleCollections collectionName)),
      bkdb_insertCollection = (\<lambda>collectionName row. ResultOf Succeeded),
      bkdb_deleteCollection = (\<lambda>collectionName. ResultOf Succeeded),
      bkdb_cleanupDeleteCollection = (\<lambda>collectionName originalResult. ResultOf Succeeded),
      bkdb_secretAlreadyExists = (\<lambda>collectionName hashedSecretName. (ResultOf Succeeded, False)),
      bkdb_secretMetadata = (\<lambda>collectionName hashedSecretName. (ResultOf Succeeded, None)),
      bkdb_hashedSecretNames = (\<lambda>collectionName. (ResultOf Succeeded, [])),
      bkdb_insertSecret = (\<lambda>collectionName hashedSecretName row. ResultOf Succeeded),
      bkdb_updateSecret = (\<lambda>collectionName hashedSecretName row. ResultOf Succeeded),
      bkdb_deleteSecret = (\<lambda>collectionName hashedSecretName. ResultOf Succeeded),
      bkdb_cleanupDeleteSecret =
        (\<lambda>collectionName hashedSecretName originalResult. ResultOf Succeeded),
      bkdb_isInitialised = True,
      bkdb_isLocked = (ResultOf Succeeded, False),
      bkdb_lock = ResultOf Succeeded,
      bkdb_unlock = (\<lambda>key. ResultOf Succeeded),
      bkdb_reencrypt = (\<lambda>oldKey newKey. ResultOf Succeeded)\<rparr>"

definition examplePlugins :: Plugins where
  "examplePlugins =
     \<lparr>m_storagePlugins = {''store''},
      m_encryptionPlugins = {''enc''},
      m_encryptedStoragePlugins = {''encstore''},
      m_authenticationPlugins = {''auth''},
      authenticationTypes_ApplicationSpecific = (\<lambda>pluginName. False),
      beginUserInputInteraction =
        (\<lambda>pluginName callerPid requestId params address. ResultOf Pending),
      supportsLocking = (\<lambda>pluginName. False),
      auth_setLockCode = (\<lambda>pluginName oldLockCode newLockCode. False),
      auth_lock = (\<lambda>pluginName. False),
      isCollectionLocked = (\<lambda>pluginName collectionName. (ResultOf Succeeded, False)),
      run_modifyLockSpecificPlugin =
        (\<lambda>target oldLockCode newLockCode. (False, ResultOf Succeeded)),
      run_lockSpecificPlugin = (\<lambda>target. (False, ResultOf Succeeded))\<rparr>"

text \<open>
  The example hash prefixes the secret name with the collection name; the example key
  derivation pads the lock code with one byte per key.
\<close>

definition exampleEnv :: Env where
  "exampleEnv =
     \<lparr>m_bkdb = exampleBkdb,
      m_appPermissions =
        \<lparr>applicationIsPlatformApplication = (\<lambda>callerPid. callerPid = 0),
         platformApplicationId = ''platform'',
         applicationId = (\<lambda>callerPid. if callerPid = 1 then ''appA'' else ''appB'')\<rparr>,
      plugins = examplePlugins,
      m_autotestMode = False,
      DefaultAuthenticationPluginName = ''auth'',
      generateHashedSecretName = (\<lambda>collectionName secretName. collectionName @ ''/'' @ secretName),
      isValid = (\<lambda>uiParams. ip_inputType uiParams \<noteq> UnknownInput),
      deriveKeyData = (\<lambda>lockCode. Some (1 # lockCode, 2 # lockCode)),
      setLockCodeCryptoPlugin = (\<lambda>target oldLockCode newLockCode. ResultOf Succeeded),
      lockCryptoPlugin = (\<lambda>target. ResultOf Succeeded)\<rparr>"

definition exampleState :: State where
  "exampleState =
     \<lparr>busyCollections = {},
      m_collectionEncryptionKeys = Map.empty,
      m_standaloneSecretEncryptionKeys = Map.empty,
      m_collectionLockTimers = [],
      m_standaloneSecretLockTimers = [],
      m_pendingRequests = Map.empty,
      timersCreated = 0,
      bkdbLockKey = [1, 7],
      deviceLockKey = [2, 7],
      noLockCode = False,
      effects = []\<rparr>"

text \<open>A secret with the three bytes \<open>abc\<close> and no filter data.\<close>

definition exampleSecret :: "QString \<Rightarrow> QString \<Rightarrow> Secret" where
  "exampleSecret collectionName secretName =
     \<lparr>sec_identifier = \<lparr>id_name = secretName, id_collectionName = collectionName\<rparr>,
      sec_data = [97, 98, 99], sec_filterData = []\<rparr>"

text \<open>
  The example database with one standalone secret, \<open>pin\<close>, whose row is \<open>secretRow\<close>.
\<close>

definition exampleStandaloneEnv :: "Metadata \<Rightarrow> Env" where
  "exampleStandaloneEnv secretRow =
     exampleEnv\<lparr>m_bkdb := exampleBkdb\<lparr>bkdb_secretMetadata :=
       (\<lambda>collectionName hashedSecretName.
          (ResultOf Succeeded,
           if collectionName = ''standalone'' \<and> hashedSecretName = ''standalone/pin''
           then Some secretRow else None))\<rparr>\<rparr>"

text \<open>The example database when re-encrypting its pages fails.\<close>

definition exampleReencryptFailsEnv :: Env where
  "exampleReencryptFailsEnv =
     exampleEnv\<lparr>m_bkdb := exampleBkdb\<lparr>bkdb_reencrypt :=
       (\<lambda>oldKey newKey. ResultError UnknownError)\<rparr>\<rparr>"

section \<open>Properties\<close>

lemmas example_defs = exampleEnv_def exampleState_def exampleBkdb_def examplePlugins_def
  exampleCollections_def exampleRow_def

lemmas helper_defs = compareCaseInsensitive_def foldCase_def callerApplicationIdOf_def
  defaultAuthenticationPlugin_def userInputPluginOf_def insertPendingRequest_def
  interleavedRequestsAllowed_def preventInterleavedRequests_def allowInterleavedRequests_def
  interleavedRequestError_def emit_def emitted_def ResultOf_def ResultError_def
  removeCollectionEncryptionKey_def removeStandaloneSecretEncryptionKey_def

subsection \<open>Creating a device-lock collection\<close>



subsection \<open>Storing a secret in a collection\<close>



subsection \<open>The interleave guard\<close>

text \<open>
  Neither \<open>setCollectionSecret\<close> nor \<open>deleteCollection\<close> reads the set of busy
  collections: what they return is the same whatever the set holds.
\<close>

lemma setCollectionSecret_never_reads_the_guard:
  "fst (setCollectionSecret env callerPid requestId secret uiParams userInteractionMode
          interactionServiceAddress (s\<lparr>busyCollections := busy\<rparr>))
   = fst (setCollectionSecret env callerPid requestId secret uiParams userInteractionMode
          interactionServiceAddress s)"
  by (simp add: setCollectionSecret_def setCollectionSecretGetAuthenticationCode_def
      setCollectionSecret_userInputFlow_def Let_def emit_def split: option.splits)

lemma deleteCollection_never_reads_the_guard:
  "fst (deleteCollection env callerPid requestId collectionName userInteractionMode
          (s\<lparr>busyCollections := busy\<rparr>))
   = fst (deleteCollection env callerPid requestId collectionName userInteractionMode s)"
  by (auto simp add: deleteCollection_def Let_def emit_def preventInterleavedRequests_def split: option.splits)

text \<open>
  Claim C1 does not hold of the code. While \<open>deleteCollection\<close> of \<open>notes\<close> waits for its
  plugin job, \<open>notes\<close> is in the busy set, and yet \<open>setCollectionSecret\<close> on \<open>notes\<close> looks
  the collection up, inserts the secret's row, hands a store job to the thread pool and
  returns \<open>Pending\<close>: it never consults the guard. \<open>setCollectionSecretMetadata\<close>, in the
  same state, returns \<open>InterleavedRequestError\<close>.
\<close>

theorem setCollectionSecret_ignores_busy_collection:
  "''notes'' \<in> busyCollections
      (snd (deleteCollection exampleEnv 1 7 ''notes'' PreventInteraction exampleState))
   \<and> emitted exampleState
      (snd (deleteCollection exampleEnv 1 7 ''notes'' PreventInteraction exampleState)) =
      [Bookkeeping (Bk_collectionMetadata ''notes''),
       Watch (EncryptedStorage_removeCollection ''encstore'' ''notes'')
         (K_deleteCollection 1 7 ''notes'' OwnerOnlyMode)]
   \<and> fst (setCollectionSecret exampleEnv 1 8 (exampleSecret ''notes'' ''x'')
            InteractionParameters0 PreventInteraction []
            (snd (deleteCollection exampleEnv 1 7 ''notes'' PreventInteraction exampleState)))
      = Return (ResultOf Pending)
   \<and> emitted (snd (deleteCollection exampleEnv 1 7 ''notes'' PreventInteraction exampleState))
        (snd (setCollectionSecret exampleEnv 1 8 (exampleSecret ''notes'' ''x'')
            InteractionParameters0 PreventInteraction []
            (snd (deleteCollection exampleEnv 1 7 ''notes'' PreventInteraction exampleState)))) =
      [Bookkeeping (Bk_collectionMetadata ''notes''),
       ThreadPool (EncryptedStorage_isCollectionLocked ''encstore'' ''notes''),
       Bookkeeping (Bk_secretAlreadyExists ''notes'' ''notes/x''),
       Bookkeeping (Bk_insertSecret ''notes'' ''notes/x''
          (exampleRow True ''encstore'' ''encstore'' DeviceLockKeepUnlocked)),
       Watch (EncryptedStorage_unlockCollectionAndStoreSecret ''encstore''
                (exampleSecret ''notes'' ''x'') ''notes/x'' [])
         (K_setCollectionSecretWithEncryptionKey 1 8 (exampleSecret ''notes'' ''x'') False
            ''notes/x'')]
   \<and> fst (setCollectionSecretMetadata exampleEnv 1 9
            \<lparr>id_name = ''x'', id_collectionName = ''notes''\<rparr>
            (snd (deleteCollection exampleEnv 1 7 ''notes'' PreventInteraction exampleState)))
      = interleavedRequestError"
  by (simp add: deleteCollection_def setCollectionSecret_def setCollectionSecretMetadata_def
      setCollectionSecretGetAuthenticationCode_def setCollectionSecretWithEncryptionKey_def
      Let_def example_defs helper_defs exampleSecret_def InteractionParameters0_def)

subsection \<open>Standalone secrets and the key cache\<close>

text \<open>
  Claim C10. The job that \<open>deleteStandaloneSecret\<close> hands to the thread pool captures the
  plugin names of the secret's row and the hashed secret name. When the job has succeeded
  and the storage and encryption plugins differ, the slot makes exactly three calls, in
  this order: it removes the unlock key cached under the hashed secret name, it deletes
  the bookkeeping row, and it answers the client. The removal of the key is the first of
  the three, nothing is cached under the hashed name afterwards whatever \<open>deleteSecret\<close>
  returns, the timer kept under the hashed name is gone as well, and nothing else of the
  state has changed.
\<close>

theorem deleteStandaloneSecret_evicts_key_before_row:
  "(\<forall>job k. Watch job k \<in> set (emitted s (snd (deleteStandaloneSecret env callerPid requestId
         ident userInteractionMode s))) \<longrightarrow>
      (\<exists>secretRow.
          snd (bkdb_secretMetadata (m_bkdb env) ''standalone''
                 (generateHashedSecretName env ''standalone'' (id_name ident)))
            = Some secretRow
        \<and> k = K_deleteStandaloneSecret requestId (md_storagePluginName secretRow)
                (md_encryptionPluginName secretRow) ''standalone''
                (generateHashedSecretName env ''standalone'' (id_name ident))))
   \<and> (code pluginResult = Succeeded \<and> storagePluginName \<noteq> encryptionPluginName \<longrightarrow>
        emitted s'
          (deleteStandaloneSecret_finished env requestId storagePluginName
             encryptionPluginName collectionName hashedSecretName pluginResult s') =
          [KeyCacheRemove StandaloneSecretEncryptionKeys hashedSecretName,
           Bookkeeping (Bk_deleteSecret collectionName hashedSecretName),
           RequestFinished requestId
             [VResult (if code (bkdb_deleteSecret (m_bkdb env) collectionName
                                  hashedSecretName) \<noteq> Succeeded
                       then bkdb_deleteSecret (m_bkdb env) collectionName hashedSecretName
                       else pluginResult)]]
      \<and> deleteStandaloneSecret_finished env requestId storagePluginName encryptionPluginName
          collectionName hashedSecretName pluginResult s' =
        s'\<lparr>m_standaloneSecretEncryptionKeys :=
             (m_standaloneSecretEncryptionKeys s')(hashedSecretName := None),
           m_standaloneSecretLockTimers :=
             AList.delete hashedSecretName (m_standaloneSecretLockTimers s'),
           effects := effects s' @
             [KeyCacheRemove StandaloneSecretEncryptionKeys hashedSecretName,
              Bookkeeping (Bk_deleteSecret collectionName hashedSecretName),
              RequestFinished requestId
                [VResult (if code (bkdb_deleteSecret (m_bkdb env) collectionName
                                     hashedSecretName) \<noteq> Succeeded
                          then bkdb_deleteSecret (m_bkdb env) collectionName hashedSecretName
                          else pluginResult)]]\<rparr>
      \<and> m_standaloneSecretEncryptionKeys
          (deleteStandaloneSecret_finished env requestId storagePluginName
             encryptionPluginName collectionName hashedSecretName pluginResult s')
          hashedSecretName = None)"
  by (auto simp add: deleteStandaloneSecret_def deleteStandaloneSecret_finished_def Let_def
      removeStandaloneSecretEncryptionKey_def emitted_def emit_def split: option.splits)

theorem deleteStandaloneSecret_evicts_key_before_row_witness:
  "emitted exampleState (snd (deleteStandaloneSecret
       (exampleStandaloneEnv (exampleRow False ''store'' ''enc'' CustomLockTimoutRelock)) 1 7
       \<lparr>id_name = ''pin'', id_collectionName = []\<rparr> PreventInteraction exampleState)) =
     [Bookkeeping (Bk_secretMetadata ''standalone'' ''standalone/pin''),
      Watch (Storage_removeSecret ''store'' ''standalone'' ''standalone/pin'')
        (K_deleteStandaloneSecret 7 ''store'' ''enc'' ''standalone'' ''standalone/pin'')]
   \<and> m_standaloneSecretEncryptionKeys
        (deleteStandaloneSecret_finished
           (exampleStandaloneEnv (exampleRow False ''store'' ''enc'' CustomLockTimoutRelock))
           7 ''store'' ''enc'' ''standalone'' ''standalone/pin'' (ResultOf Succeeded)
           (exampleState\<lparr>m_standaloneSecretEncryptionKeys :=
              [''standalone/pin'' \<mapsto> [9]]\<rparr>))
        ''standalone/pin'' = None
   \<and> emitted exampleState
        (deleteStandaloneSecret_finished
           (exampleStandaloneEnv (exampleRow False ''store'' ''enc'' CustomLockTimoutRelock))
           7 ''store'' ''enc'' ''standalone'' ''standalone/pin'' (ResultOf Succeeded)
           (exampleState\<lparr>m_standaloneSecretEncryptionKeys :=
              [''standalone/pin'' \<mapsto> [9]]\<rparr>)) =
     [KeyCacheRemove StandaloneSecretEncryptionKeys ''standalone/pin'',
      Bookkeeping (Bk_deleteSecret ''standalone'' ''standalone/pin''),
      RequestFinished 7 [VResult (ResultOf Succeeded)]]"
  using deleteStandaloneSecret_evicts_key_before_row [where s = exampleState
      and env = "exampleStandaloneEnv (exampleRow False ''store'' ''enc'' CustomLockTimoutRelock)"
      and callerPid = 1 and requestId = 7
      and ident = "\<lparr>id_name = ''pin'', id_collectionName = []\<rparr>"
      and userInteractionMode = PreventInteraction and pluginResult = "ResultOf Succeeded"
      and storagePluginName = "''store''" and encryptionPluginName = "''enc''"
      and collectionName = "''standalone''" and hashedSecretName = "''standalone/pin''"
      and s' = "exampleState\<lparr>m_standaloneSecretEncryptionKeys :=
              [''standalone/pin'' \<mapsto> [9]]\<rparr>"]
  by (simp add: deleteStandaloneSecret_def deleteStandaloneSecret_finished_def Let_def
      exampleStandaloneEnv_def example_defs helper_defs)

text \<open>
  Whenever the hashed secret name differs from the secret's name, the timer that reading a
  standalone secret starts is stored under the plain name, and its timeout leaves the key
  cached under the hashed name in place.
\<close>

lemma timeoutRelockSecret_misses_hashed_name:
  assumes "generateHashedSecretName env ''standalone'' (id_name ident) \<noteq> id_name ident"
    and "storagePluginName \<noteq> encryptionPluginName"
    and "m_standaloneSecretLockTimers s = []"
  shows "m_standaloneSecretLockTimers
           (getStandaloneSecretWithEncryptionKey env callerPid requestId ident
              userInteractionMode interactionServiceAddress storagePluginName
              encryptionPluginName CustomLockTimoutRelock secretCustomLockTimeoutMs
              encryptionKey s)
         = [(id_name ident, newTimer secretCustomLockTimeoutMs s)]
       \<and> m_standaloneSecretEncryptionKeys
           (timeoutRelockSecret (newTimer secretCustomLockTimeoutMs s)
              (getStandaloneSecretWithEncryptionKey env callerPid requestId ident
                 userInteractionMode interactionServiceAddress storagePluginName
                 encryptionPluginName CustomLockTimoutRelock secretCustomLockTimeoutMs
                 encryptionKey s))
           (generateHashedSecretName env ''standalone'' (id_name ident))
         \<noteq> None"
  using assms
  by (simp add: getStandaloneSecretWithEncryptionKey_def timeoutRelockSecret_def Let_def
      removeStandaloneSecretEncryptionKey_def emit_def)

text \<open>
  Claim C5 does not hold of the code. Reading the standalone secret \<open>pin\<close> (split plugins,
  \<open>CustomLockTimoutRelock\<close>, 500 ms) starts a single-shot timer of 500 ms, but stores it
  under the plain name \<open>pin\<close>, while the unlock key is cached under the hashed name. When
  the timer fires, \<open>timeoutRelockSecret\<close> removes the key cached under the timer's map key,
  \<open>pin\<close>: the entry under the hashed name stays in the cache.
\<close>

theorem timeoutRelockSecret_leaves_hashed_key:
  "m_standaloneSecretLockTimers
     (getStandaloneSecretWithEncryptionKey exampleEnv 1 7
        \<lparr>id_name = ''pin'', id_collectionName = []\<rparr> SystemInteraction [] ''store'' ''enc''
        CustomLockTimoutRelock 500 [9] exampleState) =
     [(''pin'', \<lparr>timer_id = 0, timer_interval = 500, timer_singleShot = True\<rparr>)]
   \<and> m_standaloneSecretEncryptionKeys
     (getStandaloneSecretWithEncryptionKey exampleEnv 1 7
        \<lparr>id_name = ''pin'', id_collectionName = []\<rparr> SystemInteraction [] ''store'' ''enc''
        CustomLockTimoutRelock 500 [9] exampleState) = [''standalone/pin'' \<mapsto> [9]]
   \<and> m_standaloneSecretEncryptionKeys
     (timeoutRelockSecret \<lparr>timer_id = 0, timer_interval = 500, timer_singleShot = True\<rparr>
        (getStandaloneSecretWithEncryptionKey exampleEnv 1 7
           \<lparr>id_name = ''pin'', id_collectionName = []\<rparr> SystemInteraction [] ''store'' ''enc''
           CustomLockTimoutRelock 500 [9] exampleState)) ''standalone/pin'' = Some [9]
   \<and> m_standaloneSecretLockTimers
     (timeoutRelockSecret \<lparr>timer_id = 0, timer_interval = 500, timer_singleShot = True\<rparr>
        (getStandaloneSecretWithEncryptionKey exampleEnv 1 7
           \<lparr>id_name = ''pin'', id_collectionName = []\<rparr> SystemInteraction [] ''store'' ''enc''
           CustomLockTimoutRelock 500 [9] exampleState)) = []"
  by (simp add: getStandaloneSecretWithEncryptionKey_def timeoutRelockSecret_def newTimer_def
      Let_def example_defs helper_defs valueOf_def)

subsection \<open>Reading a secret of another application's collection\<close>

text \<open>
  Claim C4 says that \<open>getCollectionSecret\<close> answers \<open>PermissionsError\<close> whenever the
  collection's row is \<open>OwnerOnlyMode\<close> and owned by another application. The checks that
  the plugins named by the row are installed come first: for the row of \<open>priv\<close>, owned by
  \<open>appA\<close>, whose storage plugin is no longer installed, \<open>appB\<close> is answered
  \<open>InvalidExtensionPluginError\<close>.
\<close>

theorem getCollectionSecret_owner_only_counterexample:
  "snd (bkdb_collectionMetadata
          (m_bkdb (exampleEnv\<lparr>plugins := examplePlugins\<lparr>m_storagePlugins := {}\<rparr>\<rparr>)) ''priv'')
     = Some (exampleRow False ''store'' ''enc'' CustomLockKeepUnlocked)
   \<and> md_accessControlMode (exampleRow False ''store'' ''enc'' CustomLockKeepUnlocked)
     = OwnerOnlyMode
   \<and> md_applicationId (exampleRow False ''store'' ''enc'' CustomLockKeepUnlocked)
     \<noteq> callerApplicationIdOf (exampleEnv\<lparr>plugins := examplePlugins\<lparr>m_storagePlugins := {}\<rparr>\<rparr>) 2
   \<and> fst (getCollectionSecret (exampleEnv\<lparr>plugins := examplePlugins\<lparr>m_storagePlugins := {}\<rparr>\<rparr>)
            2 7 \<lparr>id_name = ''x'', id_collectionName = ''priv''\<rparr> PreventInteraction []
            exampleState) = ResultError InvalidExtensionPluginError
   \<and> fst (getCollectionSecret (exampleEnv\<lparr>plugins := examplePlugins\<lparr>m_storagePlugins := {}\<rparr>\<rparr>)
            2 7 \<lparr>id_name = ''x'', id_collectionName = ''priv''\<rparr> PreventInteraction []
            exampleState) \<noteq> ResultError PermissionsError"
  by (simp add: getCollectionSecret_def Let_def example_defs helper_defs)

text \<open>
  Claim C4, amended. When the metadata lookup finds a row in \<open>OwnerOnlyMode\<close> whose owner
  is not the caller, \<open>getCollectionSecret\<close> returns a failed result at once; the only call
  it has made is the metadata lookup, so no plugin job is run, no user interaction is
  begun and nothing is delivered later; the processor's state is unchanged. The result is
  \<open>PermissionsError\<close> when the secret name and the collection name pass validation and the
  plugins named by the row are installed.
\<close>

theorem getCollectionSecret_owner_only_rejected:
  assumes "bkdb_collectionMetadata (m_bkdb env) (id_collectionName ident)
             = (metadataResult, Some collection)"
    and "code metadataResult = Succeeded"
    and "md_accessControlMode collection = OwnerOnlyMode"
    and "md_applicationId collection \<noteq> callerApplicationIdOf env callerPid"
  shows "code (fst (getCollectionSecret env callerPid requestId ident userInteractionMode
                 interactionServiceAddress s)) = Failed
       \<and> set (emitted s (snd (getCollectionSecret env callerPid requestId ident
                 userInteractionMode interactionServiceAddress s)))
           \<subseteq> {Bookkeeping (Bk_collectionMetadata (id_collectionName ident))}
       \<and> snd (getCollectionSecret env callerPid requestId ident userInteractionMode
                 interactionServiceAddress s)
           = s\<lparr>effects := effects (snd (getCollectionSecret env callerPid requestId ident
                 userInteractionMode interactionServiceAddress s))\<rparr>
       \<and> (id_name ident \<noteq> [] \<and> id_collectionName ident \<noteq> []
          \<and> \<not> compareCaseInsensitive (id_collectionName ident) ''standalone''
          \<and> (if md_storagePluginName collection = md_encryptionPluginName collection
              then md_storagePluginName collection \<in> m_encryptedStoragePlugins (plugins env)
              else md_storagePluginName collection \<in> m_storagePlugins (plugins env)
                   \<and> md_encryptionPluginName collection \<in> m_encryptionPlugins (plugins env))
          \<longrightarrow> fst (getCollectionSecret env callerPid requestId ident userInteractionMode
                    interactionServiceAddress s) = ResultError PermissionsError)"
  using assms
  by (auto simp add: getCollectionSecret_def Let_def emitted_def emit_def ResultError_def)

theorem getCollectionSecret_owner_only_rejected_witness:
  "fst (getCollectionSecret exampleEnv 2 7 \<lparr>id_name = ''x'', id_collectionName = ''priv''\<rparr>
          PreventInteraction [] exampleState) = ResultError PermissionsError
   \<and> emitted exampleState
        (snd (getCollectionSecret exampleEnv 2 7 \<lparr>id_name = ''x'', id_collectionName = ''priv''\<rparr>
          PreventInteraction [] exampleState))
      = [Bookkeeping (Bk_collectionMetadata ''priv'')]"
  using getCollectionSecret_owner_only_rejected [where env = exampleEnv
      and ident = "\<lparr>id_name = ''x'', id_collectionName = ''priv''\<rparr>"
      and metadataResult = "ResultOf Succeeded"
      and collection = "exampleRow False ''store'' ''enc'' CustomLockKeepUnlocked"
      and callerPid = 2 and requestId = 7 and userInteractionMode = PreventInteraction
      and interactionServiceAddress = "[]" and s = exampleState]
  by (simp add: getCollectionSecret_def Let_def example_defs helper_defs)

subsection \<open>Changing the lock class or the plugin of a standalone secret\<close>

text \<open>
  Claim C9 says that setting an existing standalone secret fails with
  \<open>OperationNotSupportedError\<close> whenever the call would change its lock class or its
  storage plugin. The owner check comes first: \<open>appB\<close>, setting as device-lock secret the
  custom-lock secret \<open>pin\<close> that \<open>appA\<close> owns, is answered \<open>PermissionsError\<close>.
\<close>

theorem setStandaloneSecret_lock_class_counterexample:
  "snd (bkdb_secretMetadata
          (m_bkdb (exampleStandaloneEnv (exampleRow False ''store'' ''enc'' CustomLockKeepUnlocked)))
          ''standalone'' ''standalone/pin'')
     = Some (exampleRow False ''store'' ''enc'' CustomLockKeepUnlocked)
   \<and> md_usesDeviceLockKey (exampleRow False ''store'' ''enc'' CustomLockKeepUnlocked) = False
   \<and> fst (setStandaloneDeviceLockSecret
            (exampleStandaloneEnv (exampleRow False ''store'' ''enc'' CustomLockKeepUnlocked))
            2 7 ''store'' ''enc'' (exampleSecret [] ''pin'') InteractionParameters0
            DeviceLockKeepUnlocked OwnerOnlyMode PreventInteraction [] exampleState)
     = ResultError PermissionsError
   \<and> fst (setStandaloneDeviceLockSecret
            (exampleStandaloneEnv (exampleRow False ''store'' ''enc'' CustomLockKeepUnlocked))
            2 7 ''store'' ''enc'' (exampleSecret [] ''pin'') InteractionParameters0
            DeviceLockKeepUnlocked OwnerOnlyMode PreventInteraction [] exampleState)
     \<noteq> ResultError OperationNotSupportedError"
  by (simp add: setStandaloneDeviceLockSecret_def Let_def exampleStandaloneEnv_def
      exampleSecret_def example_defs helper_defs)

text \<open>
  The plugin names are compared as \<^verbatim>\<open>QString::compare\<close> with \<^verbatim>\<open>Qt::CaseInsensitive\<close>
  compares them: two names that differ only in the case of their letters, the letters
  beyond A to Z included, are the same plugin, and the call is not a change of plugin.
\<close>

lemma compareCaseInsensitive_folds_every_cased_letter:
  "compareCaseInsensitive ''EncStore'' ''encstore''
   \<and> compareCaseInsensitive [CHR 0xD6] [CHR 0xF6]
   \<and> \<not> compareCaseInsensitive [CHR 0xD7] [CHR 0xF7]
   \<and> \<not> compareCaseInsensitive [CHR 0xDF] [CHR 0xFF]
   \<and> \<not> compareCaseInsensitive ''store'' ''encstore''"
  by (simp add: compareCaseInsensitive_def foldCase_def)

text \<open>
  Claim C9, amended. Let the secret name be non-empty, the plugins of the request be
  installed, and the metadata lookup find the secret's row, which the owner check does not
  reject. Then \<open>setStandaloneDeviceLockSecret\<close> fails with \<open>OperationNotSupportedError\<close>
  when the row is not device-locked or its storage plugin is not the requested one
  (compared case-insensitively), and \<open>setStandaloneCustomLockSecret\<close> does when the row is
  device-locked or its storage plugin is not the requested one. In both the only call made
  is the metadata lookup: the row is not touched.
\<close>

theorem setStandaloneSecret_lock_class_or_plugin_change_rejected:
  assumes "id_name (sec_identifier secret) \<noteq> []"
    and "if storagePluginName = encryptionPluginName
         then storagePluginName \<in> m_encryptedStoragePlugins (plugins env)
         else storagePluginName \<in> m_storagePlugins (plugins env)
              \<and> encryptionPluginName \<in> m_encryptionPlugins (plugins env)"
    and "bkdb_secretMetadata (m_bkdb env) ''standalone''
           (generateHashedSecretName env ''standalone'' (id_name (sec_identifier secret)))
         = (metadataResult, Some secretRow)"
    and "code metadataResult = Succeeded"
    and "\<not> (md_accessControlMode secretRow = OwnerOnlyMode
            \<and> md_applicationId secretRow \<noteq> callerApplicationIdOf env callerPid)"
  shows "(\<not> md_usesDeviceLockKey secretRow
          \<or> \<not> compareCaseInsensitive (md_storagePluginName secretRow) storagePluginName
        \<longrightarrow> setStandaloneDeviceLockSecret env callerPid requestId storagePluginName
              encryptionPluginName secret uiParams unlockSemantic accessControlMode
              userInteractionMode interactionServiceAddress s
            = (ResultError OperationNotSupportedError,
               emit (Bookkeeping (Bk_secretMetadata ''standalone''
                  (generateHashedSecretName env ''standalone''
                     (id_name (sec_identifier secret))))) s))
       \<and> (md_usesDeviceLockKey secretRow
          \<or> \<not> compareCaseInsensitive (md_storagePluginName secretRow) storagePluginName
        \<longrightarrow> setStandaloneCustomLockSecret env callerPid requestId storagePluginName
              encryptionPluginName authenticationPluginName secret uiParams customUnlockSemantic
              customLockTimeoutMs accessControlMode userInteractionMode
              interactionServiceAddress s
            = (Return (ResultError OperationNotSupportedError),
               emit (Bookkeeping (Bk_secretMetadata ''standalone''
                  (generateHashedSecretName env ''standalone''
                     (id_name (sec_identifier secret))))) s))"
  using assms
  by (auto simp add: setStandaloneDeviceLockSecret_def setStandaloneCustomLockSecret_def
      Let_def split: if_splits)

theorem setStandaloneSecret_lock_class_or_plugin_change_rejected_witness:
  "setStandaloneDeviceLockSecret
     (exampleStandaloneEnv (exampleRow False ''store'' ''enc'' CustomLockKeepUnlocked))
     1 7 ''store'' ''enc'' (exampleSecret [] ''pin'') InteractionParameters0
     DeviceLockKeepUnlocked OwnerOnlyMode PreventInteraction [] exampleState
   = (ResultError OperationNotSupportedError,
      emit (Bookkeeping (Bk_secretMetadata ''standalone'' ''standalone/pin'')) exampleState)
   \<and> setStandaloneCustomLockSecret
     (exampleStandaloneEnv (exampleRow False ''store'' ''enc'' CustomLockKeepUnlocked))
     1 7 ''encstore'' ''encstore'' ''auth'' (exampleSecret [] ''pin'') InteractionParameters0
     CustomLockKeepUnlocked 0 OwnerOnlyMode SystemInteraction [] exampleState
   = (Return (ResultError OperationNotSupportedError),
      emit (Bookkeeping (Bk_secretMetadata ''standalone'' ''standalone/pin'')) exampleState)"
proof -
  let ?env = "exampleStandaloneEnv (exampleRow False ''store'' ''enc'' CustomLockKeepUnlocked)"
  have h: "generateHashedSecretName ?env ''standalone'' ''pin'' = ''standalone/pin''"
    by (simp add: exampleStandaloneEnv_def example_defs)
  have a: "setStandaloneDeviceLockSecret ?env 1 7 ''store'' ''enc'' (exampleSecret [] ''pin'')
      InteractionParameters0 DeviceLockKeepUnlocked OwnerOnlyMode PreventInteraction []
      exampleState
    = (ResultError OperationNotSupportedError,
       emit (Bookkeeping (Bk_secretMetadata ''standalone'' ''standalone/pin'')) exampleState)"
    using setStandaloneSecret_lock_class_or_plugin_change_rejected [where env = ?env
        and secret = "exampleSecret [] ''pin''" and storagePluginName = "''store''"
        and encryptionPluginName = "''enc''" and metadataResult = "ResultOf Succeeded"
        and secretRow = "exampleRow False ''store'' ''enc'' CustomLockKeepUnlocked"
        and callerPid = 1 and requestId = 7 and uiParams = InteractionParameters0
        and unlockSemantic = DeviceLockKeepUnlocked and accessControlMode = OwnerOnlyMode
        and userInteractionMode = PreventInteraction and interactionServiceAddress = "[]"
        and s = exampleState]
    by (simp add: exampleStandaloneEnv_def exampleSecret_def example_defs helper_defs)
  have b: "setStandaloneCustomLockSecret ?env 1 7 ''encstore'' ''encstore'' ''auth''
      (exampleSecret [] ''pin'') InteractionParameters0 CustomLockKeepUnlocked 0 OwnerOnlyMode
      SystemInteraction [] exampleState
    = (Return (ResultError OperationNotSupportedError),
       emit (Bookkeeping (Bk_secretMetadata ''standalone'' ''standalone/pin'')) exampleState)"
    using setStandaloneSecret_lock_class_or_plugin_change_rejected [where env = ?env
        and secret = "exampleSecret [] ''pin''" and storagePluginName = "''encstore''"
        and encryptionPluginName = "''encstore''" and metadataResult = "ResultOf Succeeded"
        and secretRow = "exampleRow False ''store'' ''enc'' CustomLockKeepUnlocked"
        and callerPid = 1 and requestId = 7 and uiParams = InteractionParameters0
        and authenticationPluginName = "''auth''"
        and customUnlockSemantic = CustomLockKeepUnlocked and customLockTimeoutMs = 0
        and accessControlMode = OwnerOnlyMode
        and userInteractionMode = SystemInteraction and interactionServiceAddress = "[]"
        and s = exampleState]
    by (simp add: exampleStandaloneEnv_def exampleSecret_def example_defs helper_defs)
  from a b show ?thesis by simp
qed

subsection \<open>Validation of the collection name\<close>

text \<open>
  For an empty collection name and for the reserved name \<open>standalone\<close> in any case,
  \<open>deleteCollection\<close> and \<open>findCollectionSecrets\<close>, and the operations on a secret whose own
  name is not empty (\<open>setCollectionSecret\<close>, \<open>getCollectionSecret\<close>,
  \<open>deleteCollectionSecret\<close>, \<open>setCollectionSecretMetadata\<close>,
  \<open>deleteCollectionSecretMetadata\<close>), return \<open>InvalidCollectionError\<close> and leave the state
  as it is: no call to a collaborator has been made. \<open>createDeviceLockCollection\<close> and
  \<open>createCustomLockCollection\<close> do so for the reserved name.
\<close>

lemma collection_name_rejected_by_the_other_operations:
  assumes "collectionName = [] \<or> compareCaseInsensitive collectionName ''standalone''"
    and "id_collectionName (sec_identifier secret) = collectionName"
    and "id_name (sec_identifier secret) \<noteq> []"
    and "id_collectionName ident = collectionName"
    and "id_name ident \<noteq> []"
  shows "deleteCollection env callerPid requestId collectionName userInteractionMode s
           = (ResultError InvalidCollectionError, s)
       \<and> findCollectionSecrets env callerPid requestId collectionName filterData
             filterOperator userInteractionMode interactionServiceAddress s
           = (ResultError InvalidCollectionError, s)
       \<and> setCollectionSecret env callerPid requestId secret uiParams userInteractionMode
             interactionServiceAddress s
           = (Return (ResultError InvalidCollectionError), s)
       \<and> getCollectionSecret env callerPid requestId ident userInteractionMode
             interactionServiceAddress s
           = (ResultError InvalidCollectionError, s)
       \<and> deleteCollectionSecret env callerPid requestId ident userInteractionMode
             interactionServiceAddress s
           = (Return (ResultError InvalidCollectionError), s)
       \<and> setCollectionSecretMetadata env callerPid requestId ident s
           = (ResultError InvalidCollectionError, s)
       \<and> deleteCollectionSecretMetadata env callerPid requestId ident s
           = (ResultError InvalidCollectionError, s)
       \<and> (compareCaseInsensitive collectionName ''standalone'' \<longrightarrow>
            createDeviceLockCollection env callerPid requestId collectionName
              storagePluginName encryptionPluginName deviceLockUnlockSemantic
              accessControlMode s
              = (ResultError InvalidCollectionError, s)
          \<and> createCustomLockCollection env callerPid requestId collectionName
              storagePluginName encryptionPluginName authenticationPluginName
              customLockUnlockSemantic customLockTimeoutMs accessControlMode
              userInteractionMode interactionServiceAddress s
              = (ResultError InvalidCollectionError, s))"
  using assms
  by (auto simp add: deleteCollection_def findCollectionSecrets_def setCollectionSecret_def
      getCollectionSecret_def deleteCollectionSecret_def setCollectionSecretMetadata_def
      deleteCollectionSecretMetadata_def createDeviceLockCollection_def
      createCustomLockCollection_def)

text \<open>
  The operations on a secret test the secret's own name before the collection name: an
  empty secret name is answered \<open>InvalidSecretError\<close>, whatever the collection name, and
  the state is left as it is.
\<close>

lemma secret_name_tested_first:
  assumes "id_name (sec_identifier secret) = []"
    and "id_name ident = []"
  shows "setCollectionSecret env callerPid requestId secret uiParams userInteractionMode
             interactionServiceAddress s
           = (Return (ResultError InvalidSecretError), s)
       \<and> getCollectionSecret env callerPid requestId ident userInteractionMode
             interactionServiceAddress s
           = (ResultError InvalidSecretError, s)
       \<and> deleteCollectionSecret env callerPid requestId ident userInteractionMode
             interactionServiceAddress s
           = (Return (ResultError InvalidSecretError), s)
       \<and> setCollectionSecretMetadata env callerPid requestId ident s
           = (ResultError InvalidSecretError, s)
       \<and> deleteCollectionSecretMetadata env callerPid requestId ident s
           = (ResultError InvalidSecretError, s)"
  using assms
  by (auto simp add: setCollectionSecret_def getCollectionSecret_def
      deleteCollectionSecret_def setCollectionSecretMetadata_def
      deleteCollectionSecretMetadata_def)

lemma compareCaseInsensitive_StandAlone:
  "compareCaseInsensitive ''StandAlone'' ''standalone''"
  by (simp add: compareCaseInsensitive_def foldCase_def)

text \<open>The reserved name in mixed case, for application \<open>appA\<close>.\<close>

lemma reserved_name_rejected_example:
  "deleteCollection exampleEnv 1 7 ''StandAlone'' PreventInteraction exampleState
     = (ResultError InvalidCollectionError, exampleState)
   \<and> setCollectionSecret exampleEnv 1 7 (exampleSecret ''StandAlone'' ''x'')
       InteractionParameters0 PreventInteraction [] exampleState
     = (Return (ResultError InvalidCollectionError), exampleState)
   \<and> getCollectionSecret exampleEnv 1 7 \<lparr>id_name = ''x'', id_collectionName = ''StandAlone''\<rparr>
       PreventInteraction [] exampleState
     = (ResultError InvalidCollectionError, exampleState)
   \<and> createDeviceLockCollection exampleEnv 1 7 ''StandAlone'' ''store'' ''enc''
       DeviceLockKeepUnlocked OwnerOnlyMode exampleState
     = (ResultError InvalidCollectionError, exampleState)"
  using collection_name_rejected_by_the_other_operations [where collectionName = "''StandAlone''"
      and secret = "exampleSecret ''StandAlone'' ''x''"
      and ident = "\<lparr>id_name = ''x'', id_collectionName = ''StandAlone''\<rparr>"
      and env = exampleEnv and callerPid = 1 and requestId = 7
      and userInteractionMode = PreventInteraction and s = exampleState
      and uiParams = InteractionParameters0 and interactionServiceAddress = "[]"
      and storagePluginName = "''store''" and encryptionPluginName = "''enc''"
      and deviceLockUnlockSemantic = DeviceLockKeepUnlocked
      and accessControlMode = OwnerOnlyMode]
    compareCaseInsensitive_StandAlone
  by (simp add: exampleSecret_def)

text \<open>
  Claim C7 does not hold of the code. \<open>createDeviceLockCollection\<close> and
  \<open>createCustomLockCollection\<close> test the collection name against the reserved name only;
  unlike \<open>deleteCollection\<close> and the operations on a secret, they have no test for an empty
  name. Called by \<open>appA\<close> with the empty name and installed plugins,
  \<open>createDeviceLockCollection\<close> asks the bookkeeping database whether the collection
  exists, inserts a row under the empty name, hands the creation of the collection to the
  storage plugin and returns \<open>Pending\<close>; \<open>createCustomLockCollection\<close> asks the database,
  begins the user interaction for the lock code, records the pending request and returns
  \<open>Pending\<close>. \<open>deleteCollection\<close> answers the same name with \<open>InvalidCollectionError\<close> and
  leaves the state as it is.
\<close>

theorem createCollection_accepts_empty_name:
  "fst (createDeviceLockCollection exampleEnv 1 7 [] ''store'' ''enc''
          DeviceLockKeepUnlocked OwnerOnlyMode exampleState) = ResultOf Pending
   \<and> emitted exampleState
        (snd (createDeviceLockCollection exampleEnv 1 7 [] ''store'' ''enc''
                DeviceLockKeepUnlocked OwnerOnlyMode exampleState)) =
     [Bookkeeping (Bk_collectionAlreadyExists []),
      Bookkeeping (Bk_insertCollection []
        \<lparr>md_applicationId = ''appA'', md_usesDeviceLockKey = True,
         md_storagePluginName = ''store'', md_encryptionPluginName = ''enc'',
         md_authenticationPluginName = ''auth'', md_unlockSemantic = DeviceLockKeepUnlocked,
         md_customLockTimeoutMs = 0, md_accessControlMode = OwnerOnlyMode\<rparr>),
      Watch (Storage_createCollection ''store'' [])
        (K_createDeviceLockCollection 7 [] ''store'' ''enc'' OwnerOnlyMode)]
   \<and> fst (createCustomLockCollection exampleEnv 1 7 [] ''store'' ''enc'' ''auth''
          CustomLockKeepUnlocked 0 OwnerOnlyMode SystemInteraction [] exampleState)
     = ResultOf Pending
   \<and> emitted exampleState
        (snd (createCustomLockCollection exampleEnv 1 7 [] ''store'' ''enc'' ''auth''
                CustomLockKeepUnlocked 0 OwnerOnlyMode SystemInteraction [] exampleState)) =
     [Bookkeeping (Bk_collectionAlreadyExists []),
      BeginUserInputInteraction ''auth'' 1 7
        (InteractionParameters0
           \<lparr>ip_applicationId := ''appA'', ip_collectionName := [],
            ip_operation := CreateCollection, ip_inputType := AlphaNumericInput,
            ip_echoMode := PasswordEchoOnEdit\<rparr>) []]
   \<and> m_pendingRequests
        (snd (createCustomLockCollection exampleEnv 1 7 [] ''store'' ''enc'' ''auth''
                CustomLockKeepUnlocked 0 OwnerOnlyMode SystemInteraction [] exampleState)) 7
     = Some \<lparr>pr_callerPid = 1, pr_requestId = 7,
             pr_requestType = CreateCustomLockCollectionRequest,
             pr_parameters =
               [VString [], VString ''store'', VString ''enc'', VString ''auth'',
                VUnlockSemantic CustomLockKeepUnlocked, VInt 0,
                VAccessControlMode OwnerOnlyMode, VUserInteractionMode SystemInteraction,
                VString []]\<rparr>
   \<and> deleteCollection exampleEnv 1 7 [] PreventInteraction exampleState
     = (ResultError InvalidCollectionError, exampleState)"
  by (simp add: createDeviceLockCollection_def createCustomLockCollection_def
      deleteCollection_def Let_def example_defs helper_defs)

theorem createCollection_accepts_empty_name_witness:
  "fst (createDeviceLockCollection exampleEnv 1 7 [] ''store'' ''enc''
          DeviceLockKeepUnlocked OwnerOnlyMode exampleState)
     \<noteq> ResultError InvalidCollectionError
   \<and> fst (createCustomLockCollection exampleEnv 1 7 [] ''store'' ''enc'' ''auth''
          CustomLockKeepUnlocked 0 OwnerOnlyMode SystemInteraction [] exampleState)
     \<noteq> ResultError InvalidCollectionError
   \<and> fst (deleteCollection exampleEnv 1 7 [] PreventInteraction exampleState)
     = ResultError InvalidCollectionError"
  using createCollection_accepts_empty_name
  by (simp add: ResultOf_def ResultError_def)

subsection \<open>Forgetting the lock code of the bookkeeping database\<close>

lemma forgetLockCodeSentinel_bytes: "forgetLockCodeSentinel = replicate 64 0x66"
  by (simp add: forgetLockCodeSentinel_def numeral_eq_Suc)

lemma forgetLockCodeSentinel_not_ff: "forgetLockCodeSentinel \<noteq> replicate 64 0xff"
  by code_simp

text \<open>
  Claim C6 says that \<open>forgetLockCode\<close> re-initialises the key material with 64 bytes
  \<open>0xff\<close>. The lock code the processor passes to \<open>initialise\<close> is the text of 64 letters
  \<open>f\<close>: 64 bytes \<open>0x66\<close>.
\<close>

theorem forgetLockCode_sentinel_counterexample:
  "emitted exampleState (snd (forgetLockCode exampleEnv 0 7 BookkeepingDatabase []
       InteractionParameters0 PreventInteraction [] exampleState))
     = [RequestQueue (Q_initialise forgetLockCodeSentinel), Bookkeeping Bk_lock,
        ThreadPool masterLockPlugins]
   \<and> forgetLockCodeSentinel \<noteq> replicate 64 0xff"
  using forgetLockCodeSentinel_not_ff
  by (simp add: forgetLockCode_def initialise_def Let_def example_defs helper_defs)

text \<open>
  Claim C6, amended. For the platform application and an empty target name,
  \<open>forgetLockCode\<close> on the bookkeeping database initialises the key data from the sentinel
  lock code, 64 bytes \<open>0x66\<close>; when that succeeds the keys of the daemon are the ones
  derived from the sentinel, the database is then locked, the plugins are then locked, and
  the result is the result of locking the database.
\<close>

theorem forgetLockCode_database:
  assumes "applicationIsPlatformApplication (m_appPermissions env) callerPid"
    and "deriveKeyData env forgetLockCodeSentinel = Some (sentinelBkdbKey, sentinelDeviceLockKey)"
  shows "fst (forgetLockCode env callerPid requestId BookkeepingDatabase [] interactionParams
                userInteractionMode interactionServiceAddress s) = bkdb_lock (m_bkdb env)
       \<and> emitted s (snd (forgetLockCode env callerPid requestId BookkeepingDatabase []
                interactionParams userInteractionMode interactionServiceAddress s))
           = [RequestQueue (Q_initialise forgetLockCodeSentinel), Bookkeeping Bk_lock,
              ThreadPool masterLockPlugins]
       \<and> bkdbLockKey (snd (forgetLockCode env callerPid requestId BookkeepingDatabase []
                interactionParams userInteractionMode interactionServiceAddress s))
           = sentinelBkdbKey
       \<and> deviceLockKey (snd (forgetLockCode env callerPid requestId BookkeepingDatabase []
                interactionParams userInteractionMode interactionServiceAddress s))
           = sentinelDeviceLockKey
       \<and> forgetLockCodeSentinel = replicate 64 0x66"
  using assms forgetLockCodeSentinel_bytes
  by (simp add: forgetLockCode_def initialise_def Let_def emitted_def emit_def)

theorem forgetLockCode_database_witness:
  "fst (forgetLockCode exampleEnv 0 7 BookkeepingDatabase [] InteractionParameters0
          PreventInteraction [] exampleState) = ResultOf Succeeded
   \<and> bkdbLockKey (snd (forgetLockCode exampleEnv 0 7 BookkeepingDatabase []
          InteractionParameters0 PreventInteraction [] exampleState))
      = 1 # forgetLockCodeSentinel
   \<and> length forgetLockCodeSentinel = 64"
proof -
  have platform: "applicationIsPlatformApplication (m_appPermissions exampleEnv) 0"
    by (simp add: example_defs)
  have derived: "deriveKeyData exampleEnv forgetLockCodeSentinel
      = Some (1 # forgetLockCodeSentinel, 2 # forgetLockCodeSentinel)"
    by (simp add: example_defs)
  have locked: "bkdb_lock (m_bkdb exampleEnv) = ResultOf Succeeded"
    by (simp add: example_defs)
  have "length (replicate 64 (0x66 :: 8 word)) = 64"
    by simp
  with forgetLockCode_database [OF platform derived, where requestId = 7
      and interactionParams = InteractionParameters0
      and userInteractionMode = PreventInteraction and interactionServiceAddress = "[]"
      and s = exampleState] locked
  show ?thesis by simp
qed

subsection \<open>A failed re-encryption of the bookkeeping database\<close>

text \<open>
  Claim C3. In \<open>modifyLockCodeWithLockCodes\<close> on the bookkeeping database, let the old
  lock code pass \<open>testLockCode\<close>, the key data of the new lock code be derived, and
  \<open>reencrypt\<close> of the bookkeeping database not succeed. Then the processor initialises the
  key data from the old lock code again and returns the result of \<open>reencrypt\<close>; it has made
  no call after that: no collection names are read, no job is given to a plugin. The state
  of the daemon, its two keys and the no-lock-code flag included, is as before the call.
\<close>

theorem modifyLockCode_reencrypt_failure_restores_keys:
  assumes "lockCodeTargetType \<noteq> ExtensionPlugin"
    and "testLockCode env oldLockCode s"
    and "deriveKeyData env newLockCode = Some (newBkdbLockKey, newDeviceLockKey)"
    and "code (bkdb_reencrypt (m_bkdb env) (bkdbLockKey s) newBkdbLockKey) \<noteq> Succeeded"
  shows "fst (modifyLockCodeWithLockCodes env callerPid requestId lockCodeTargetType
                lockCodeTarget interactionParams userInteractionMode
                interactionServiceAddress oldLockCode newLockCode s)
           = bkdb_reencrypt (m_bkdb env) (bkdbLockKey s) newBkdbLockKey
       \<and> emitted s (snd (modifyLockCodeWithLockCodes env callerPid requestId
                lockCodeTargetType lockCodeTarget interactionParams userInteractionMode
                interactionServiceAddress oldLockCode newLockCode s))
           = [RequestQueue (Q_testLockCode oldLockCode), Bookkeeping Bk_isInitialised]
             @ (if bkdb_isInitialised (m_bkdb env) then []
                else [RequestQueue (Q_initialise oldLockCode)])
             @ [RequestQueue (Q_initialise newLockCode),
                Bookkeeping (Bk_reencrypt (bkdbLockKey s) newBkdbLockKey),
                RequestQueue (Q_initialise oldLockCode)]
       \<and> snd (modifyLockCodeWithLockCodes env callerPid requestId lockCodeTargetType
                lockCodeTarget interactionParams userInteractionMode
                interactionServiceAddress oldLockCode newLockCode s)
           = s\<lparr>effects := effects (snd (modifyLockCodeWithLockCodes env callerPid requestId
                lockCodeTargetType lockCodeTarget interactionParams userInteractionMode
                interactionServiceAddress oldLockCode newLockCode s))\<rparr>"
  using assms
  by (auto simp add: modifyLockCodeWithLockCodes_def initialise_def testLockCode_def Let_def
      emitted_def emit_def)

theorem modifyLockCode_reencrypt_failure_restores_keys_witness:
  "fst (modifyLockCodeWithLockCodes exampleReencryptFailsEnv 0 7 BookkeepingDatabase []
          InteractionParameters0 SystemInteraction [] [7] [8] exampleState)
     = ResultError UnknownError
   \<and> emitted exampleState
        (snd (modifyLockCodeWithLockCodes exampleReencryptFailsEnv 0 7 BookkeepingDatabase []
          InteractionParameters0 SystemInteraction [] [7] [8] exampleState))
     = [RequestQueue (Q_testLockCode [7]), Bookkeeping Bk_isInitialised,
        RequestQueue (Q_initialise [8]), Bookkeeping (Bk_reencrypt [1, 7] [1, 8]),
        RequestQueue (Q_initialise [7])]
   \<and> bkdbLockKey
        (snd (modifyLockCodeWithLockCodes exampleReencryptFailsEnv 0 7 BookkeepingDatabase []
          InteractionParameters0 SystemInteraction [] [7] [8] exampleState)) = [1, 7]
   \<and> deviceLockKey
        (snd (modifyLockCodeWithLockCodes exampleReencryptFailsEnv 0 7 BookkeepingDatabase []
          InteractionParameters0 SystemInteraction [] [7] [8] exampleState)) = [2, 7]"
proof -
  have tested: "testLockCode exampleReencryptFailsEnv [7] exampleState"
    by (simp add: testLockCode_def exampleReencryptFailsEnv_def example_defs)
  have derived: "deriveKeyData exampleReencryptFailsEnv [8] = Some ([1, 8], [2, 8])"
    by (simp add: exampleReencryptFailsEnv_def example_defs)
  have failed: "code (bkdb_reencrypt (m_bkdb exampleReencryptFailsEnv)
      (bkdbLockKey exampleState) [1, 8]) \<noteq> Succeeded"
    by (simp add: exampleReencryptFailsEnv_def example_defs ResultError_def)
  have target: "BookkeepingDatabase \<noteq> ExtensionPlugin"
    by simp
  from modifyLockCode_reencrypt_failure_restores_keys [OF target tested derived failed,
      where callerPid = 0 and requestId = 7 and lockCodeTarget = "[]"
      and interactionParams = InteractionParameters0
      and userInteractionMode = SystemInteraction and interactionServiceAddress = "[]"]
  show ?thesis
    by (simp add: modifyLockCodeWithLockCodes_def initialise_def testLockCode_def Let_def
        exampleReencryptFailsEnv_def example_defs helper_defs)
qed

end
